theory Spec2Isabelle
  imports Complex_Main "HOL-Library.Char_ord" "HOL-Library.List_Lexorder" "HOL-Library.Product_Lexorder"
begin

section \<open>Text\<close>

text \<open>
  A Python \<^verbatim>\<open>str\<close> is modelled as a \<^typ>\<open>string\<close> whose characters are code points
  below 256 (Latin-1, which holds every accented letter the source names). A table
  cell read with \<^verbatim>\<open>dtype=str\<close> is a \<^typ>\<open>string option\<close>: \<^term>\<open>None\<close> is pandas' NaN.
\<close>

definition apostrophe :: char where
  "apostrophe = CHR 0x27"

definition e_acute :: char where
  "e_acute = CHR 0xE9"

definition e_grave :: char where
  "e_grave = CHR 0xE8"

definition E_acute :: char where
  "E_acute = CHR 0xC9"

text \<open>\<^verbatim>\<open>s.startswith(p)\<close> and the substring test behind \<^verbatim>\<open>Series.str.contains(p)\<close>
  (the patterns of the source hold no regular-expression operator).\<close>

fun startswith :: "string \<Rightarrow> string \<Rightarrow> bool" where
  "startswith s [] = True"
| "startswith [] (p # ps) = False"
| "startswith (c # cs) (p # ps) = (c = p \<and> startswith cs ps)"

fun str_contains :: "string \<Rightarrow> string \<Rightarrow> bool" where
  "str_contains [] pat = (pat = [])"
| "str_contains (c # cs) pat = (startswith (c # cs) pat \<or> str_contains cs pat)"

text \<open>\<^verbatim>\<open>c.split('_')[0]\<close> and \<^verbatim>\<open>'_'.join(c.split('_')[1:])\<close>.\<close>

definition split_head :: "string \<Rightarrow> string" where
  "split_head c = takeWhile (\<lambda>x. x \<noteq> CHR ''_'') c"

definition split_rest :: "string \<Rightarrow> string" where
  "split_rest c = drop 1 (dropWhile (\<lambda>x. x \<noteq> CHR ''_'') c)"

text \<open>
  \<^verbatim>\<open>str.normalize('NFKD')\<close>, \<^verbatim>\<open>encode('ascii', errors='ignore')\<close>, \<^verbatim>\<open>decode('utf-8')\<close>:
  every character is replaced by the ASCII characters of its compatibility
  decomposition. The decomposition table is Unicode's, not the repository's; below it
  is written out for the code points under 256.
\<close>

definition nfkd_ascii :: "char \<Rightarrow> string" where
  "nfkd_ascii c =
     (let n = (of_char c :: nat) in
      if n < 0x80 then [c]
      else if n = 0xA0 \<or> n = 0xA8 \<or> n = 0xAF \<or> n = 0xB4 \<or> n = 0xB8 then '' ''
      else if n = 0xAA \<or> (0xE0 \<le> n \<and> n \<le> 0xE5) then ''a''
      else if n = 0xB2 then ''2''
      else if n = 0xB3 then ''3''
      else if n = 0xB9 then ''1''
      else if n = 0xBA \<or> (0xF2 \<le> n \<and> n \<le> 0xF6) then ''o''
      else if n = 0xBC then ''14''
      else if n = 0xBD then ''12''
      else if n = 0xBE then ''34''
      else if 0xC0 \<le> n \<and> n \<le> 0xC5 then ''A''
      else if n = 0xC7 then ''C''
      else if 0xC8 \<le> n \<and> n \<le> 0xCB then ''E''
      else if 0xCC \<le> n \<and> n \<le> 0xCF then ''I''
      else if n = 0xD1 then ''N''
      else if 0xD2 \<le> n \<and> n \<le> 0xD6 then ''O''
      else if 0xD9 \<le> n \<and> n \<le> 0xDC then ''U''
      else if n = 0xDD then ''Y''
      else if n = 0xE7 then ''c''
      else if 0xE8 \<le> n \<and> n \<le> 0xEB then ''e''
      else if 0xEC \<le> n \<and> n \<le> 0xEF then ''i''
      else if n = 0xF1 then ''n''
      else if 0xF9 \<le> n \<and> n \<le> 0xFC then ''u''
      else if n = 0xFD \<or> n = 0xFF then ''y''
      else [])"

definition remove_accents :: "string \<Rightarrow> string" where
  "remove_accents s = concat (map nfkd_ascii s)"

section \<open>Tables\<close>

text \<open>
  The \<^verbatim>\<open>value\<close> column starts as text, receives floats from the censored-value
  rules and is numeric from \<^verbatim>\<open>pd.to_numeric\<close> on. Numbers are rationals: the
  rounding of 64-bit floats is not modelled.
\<close>

datatype cell = Missing | Text string | Number rat

text \<open>
  A row of the long table: the columns the pipeline reads by name, and the remaining
  columns (sample date, analysis label, reference limits, \<open>lab_name\<close>) carried along.
  The field \<open>val\<close> is the column \<^verbatim>\<open>value\<close>. Rows are kept in a list: the list position
  stands for the data frame's index, which is taken to hold no label twice.
\<close>

record 'v lab_row =
  case_admission_id :: "string option"
  dosage_label :: "string option"
  material_label :: "string option"
  unit_of_measure :: "string option"
  val :: 'v
  other_columns :: "(string \<times> string option) list"

text \<open>\<^verbatim>\<open>Series.isin(values)\<close> for a list of strings (NaN is in no such list), and for a
  column of a reference table, where pandas lets a NaN cell match a NaN entry.\<close>

definition isin :: "string option \<Rightarrow> string list \<Rightarrow> bool" where
  "isin c values = (case c of None \<Rightarrow> False | Some s \<Rightarrow> s \<in> set values)"

definition isin_column :: "string option \<Rightarrow> string option list \<Rightarrow> bool" where
  "isin_column c values = (c \<in> set values)"

section \<open>Censored values: \<^verbatim>\<open>correct_non_numerical_values\<close>\<close>

text \<open>\<^verbatim>\<open>Series.str.replace("'", "")\<close>: a cell that is not a string becomes NaN.\<close>

definition str_replace_apostrophe :: "cell \<Rightarrow> cell" where
  "str_replace_apostrophe c =
     (case c of Text s \<Rightarrow> Text (filter (\<lambda>x. x \<noteq> apostrophe) s) | _ \<Rightarrow> Missing)"

text \<open>One statement
  \<^verbatim>\<open>df.loc[df['dosage_label'].isin(labels) & (df['value'] == literal), 'value'] = new_value\<close>;
  the source writes \<^verbatim>\<open>df['dosage_label'] == label\<close> where the list has one label.\<close>

definition loc_assign :: "string list \<Rightarrow> string \<Rightarrow> rat \<Rightarrow> cell lab_row list \<Rightarrow> cell lab_row list" where
  "loc_assign labels literal new_value df =
     map (\<lambda>r. if isin (dosage_label r) labels \<and> val r = Text literal
               then r\<lparr>val := Number new_value\<rparr> else r) df"

definition anti_Xa_DOAC :: "string list" where
  "anti_Xa_DOAC = [''Activit'' @ [e_acute] @ '' anti-Xa (DOAC)'', ''Activite anti-Xa (DOAC)'']"

definition fibrinogene :: "string list" where
  "fibrinogene = [''fibrinog'' @ [e_grave] @ ''ne'', ''fibrinogene'']"

definition anti_Xa_HBPM :: "string list" where
  "anti_Xa_HBPM =
     [''activit'' @ [e_acute] @ '' anti-Xa (HBPM), th'' @ [e_acute] @ ''rapeutique, 2x /jour'',
      ''activite anti-Xa (HBPM), therapeutique, 2x /jour'']"

definition anti_Xa_HNF :: "string list" where
  "anti_Xa_HNF = [''activit'' @ [e_acute] @ '' anti-Xa (HNF)'', ''activite anti-Xa (HNF)'']"

definition proteine_C_reactive :: "string list" where
  "proteine_C_reactive =
     [''prot'' @ [e_acute] @ ''ine C-r'' @ [e_acute] @ ''active'', ''proteine C-reactive'']"

definition cholesterol_HDL :: "string list" where
  "cholesterol_HDL = [''cholest'' @ [e_acute] @ ''rol HDL'', ''cholesterol HDL'']"

definition creatinine :: "string list" where
  "creatinine = [''cr'' @ [e_acute] @ ''atinine'', ''creatinine'']"

definition correct_non_numerical_values :: "cell lab_row list \<Rightarrow> cell lab_row list" where
  "correct_non_numerical_values equalized_reorganised_lab_df =
     (let df = map (\<lambda>r. r\<lparr>val := str_replace_apostrophe (val r)\<rparr>) equalized_reorganised_lab_df;
          df = loc_assign [''glucose''] ''>83.2'' (83.2 + 0.05 * 83.2) df;
          df = loc_assign [''proBNP''] ''>70000'' (70000 + 0.05 * 70000) df;
          df = loc_assign anti_Xa_DOAC ''>474'' (474 + 0.05 * 474) df;
          df = loc_assign anti_Xa_DOAC ''>445'' (445 + 0.05 * 445) df;
          df = loc_assign [''PTT''] ''>160.0'' (160.0 + 0.05 * 160.0) df;
          df = loc_assign [''INR''] ''>11.00'' (11.00 + 0.05 * 11.00) df;
          df = loc_assign fibrinogene ''>11.00'' (11.00 + 0.05 * 11.00) df;
          df = loc_assign fibrinogene ''>11.0'' (11.0 + 0.05 * 11.0) df;
          df = loc_assign anti_Xa_HBPM ''>1.60'' (1.60 + 0.05 * 1.60) df;
          df = loc_assign anti_Xa_HNF ''>1.31'' (1.31 + 0.05 * 1.31) df;
          df = loc_assign anti_Xa_HNF ''>1.20'' (1.20 + 0.05 * 1.20) df;
          df = loc_assign [''sodium''] ''>180'' (180 + 0.05 * 180) df;
          df = loc_assign proteine_C_reactive ''>200.00'' (200.00 + 0.05 * 200.00) df;
          df = loc_assign [''ALAT''] ''<5'' (5 - 0.05 * 5) df;
          df = loc_assign [''bilirubine totale''] ''<3'' (3 - 0.05 * 3) df;
          df = loc_assign anti_Xa_DOAC ''<10'' (10 - 0.05 * 10) df;
          df = loc_assign [''INR''] ''<1.00'' (1.00 - 0.05 * 1.00) df;
          df = loc_assign fibrinogene ''<0.7'' (0.7 - 0.05 * 0.7) df;
          df = loc_assign fibrinogene ''<0.5'' (0.5 - 0.05 * 0.5) df;
          df = loc_assign fibrinogene ''<0.4'' (0.4 - 0.05 * 0.4) df;
          df = loc_assign proteine_C_reactive ''<0.30'' (0.30 - 0.05 * 0.30) df;
          df = loc_assign cholesterol_HDL ''<0.08'' (0.08 - 0.05 * 0.08) df;
          df = loc_assign creatinine ''<18'' (18 - 0.05 * 18) df
      in df)"

text \<open>
  The rule table as the specification words it: a set of labels, a comparator, the
  exact literal and its numeric threshold; the estimate lies 5 percent beyond the
  threshold, on the side the comparator names.
\<close>

datatype comparator = Greater | Less

type_synonym censored_value_rule = "string list \<times> comparator \<times> string \<times> rat"

definition censored_value_rules :: "censored_value_rule list" where
  "censored_value_rules =
     [([''glucose''], Greater, ''>83.2'', 83.2),
      ([''proBNP''], Greater, ''>70000'', 70000),
      (anti_Xa_DOAC, Greater, ''>474'', 474),
      (anti_Xa_DOAC, Greater, ''>445'', 445),
      ([''PTT''], Greater, ''>160.0'', 160.0),
      ([''INR''], Greater, ''>11.00'', 11.00),
      (fibrinogene, Greater, ''>11.00'', 11.00),
      (fibrinogene, Greater, ''>11.0'', 11.0),
      (anti_Xa_HBPM, Greater, ''>1.60'', 1.60),
      (anti_Xa_HNF, Greater, ''>1.31'', 1.31),
      (anti_Xa_HNF, Greater, ''>1.20'', 1.20),
      ([''sodium''], Greater, ''>180'', 180),
      (proteine_C_reactive, Greater, ''>200.00'', 200.00),
      ([''ALAT''], Less, ''<5'', 5),
      ([''bilirubine totale''], Less, ''<3'', 3),
      (anti_Xa_DOAC, Less, ''<10'', 10),
      ([''INR''], Less, ''<1.00'', 1.00),
      (fibrinogene, Less, ''<0.7'', 0.7),
      (fibrinogene, Less, ''<0.5'', 0.5),
      (fibrinogene, Less, ''<0.4'', 0.4),
      (proteine_C_reactive, Less, ''<0.30'', 0.30),
      (cholesterol_HDL, Less, ''<0.08'', 0.08),
      (creatinine, Less, ''<18'', 18)]"

definition estimate :: "comparator \<Rightarrow> rat \<Rightarrow> rat" where
  "estimate cmp threshold = (case cmp of Greater \<Rightarrow> threshold * 1.05 | Less \<Rightarrow> threshold * 0.95)"

definition rule_matches :: "string option \<Rightarrow> cell \<Rightarrow> censored_value_rule \<Rightarrow> bool" where
  "rule_matches label c rule = (case rule of (labels, cmp, literal, threshold) \<Rightarrow>
     isin label labels \<and> c = Text literal)"

definition censored_estimate :: "censored_value_rule list \<Rightarrow> string option \<Rightarrow> cell \<Rightarrow> cell" where
  "censored_estimate rules label c =
     (case find (rule_matches label c) rules of
        None \<Rightarrow> c
      | Some (labels, cmp, literal, threshold) \<Rightarrow> Number (estimate cmp threshold))"

text \<open>One rule of the table, as the statement of the source that applies it.\<close>

definition apply_rule :: "censored_value_rule \<Rightarrow> cell lab_row list \<Rightarrow> cell lab_row list" where
  "apply_rule rule df = (case rule of (labels, cmp, literal, threshold) \<Rightarrow>
      loc_assign labels literal (estimate cmp threshold) df)"

section \<open>The input table and its reshaping\<close>

text \<open>
  The table \<^verbatim>\<open>preprocess_labs\<close> receives has columns known only at run time: a
  \<open>frame\<close> lists its column names and keeps each row as an association list from
  column name to cell, the first entry of a name being the cell; a name a row has no
  entry for reads as NaN, which is how \<^verbatim>\<open>pd.concat\<close> fills the columns a block lacks.
  All cells are text or NaN, as \<^verbatim>\<open>pd.read_csv(..., dtype=str)\<close> produces them.
\<close>

type_synonym raw_row = "(string \<times> string option) list"

record frame =
  columns :: "string list"
  rows :: "raw_row list"

definition cell_of :: "raw_row \<Rightarrow> string \<Rightarrow> string option" where
  "cell_of r c = (case map_of r c of None \<Rightarrow> None | Some v \<Rightarrow> v)"

datatype error =
    KeyError string
  | IndexError
  | LengthMismatch
  | NoObjectsToConcatenate
  | ArterialAndOtherMaterials string "string option list"
  | DifferentUnits "string option" "string option list"
  | RemainingNonNumericalValues "cell list"
  | FloatValueError string

text \<open>\<^verbatim>\<open>Series.unique()\<close>: the distinct values in order of first appearance (all NaN
  count as one value).\<close>

fun unique :: "'a list \<Rightarrow> 'a list" where
  "unique [] = []"
| "unique (x # xs) = x # unique (filter (\<lambda>y. y \<noteq> x) xs)"

text \<open>A loop whose body may raise: the first error ends it.\<close>

fun for_each :: "('a \<Rightarrow> error + 'b) \<Rightarrow> 'a list \<Rightarrow> error + 'b list" where
  "for_each f [] = Inr []"
| "for_each f (x # xs) =
     (case f x of Inl e \<Rightarrow> Inl e
      | Inr y \<Rightarrow> (case for_each f xs of Inl e \<Rightarrow> Inl e | Inr ys \<Rightarrow> Inr (y # ys)))"

definition columns_to_drop :: "string list" where
  "columns_to_drop =
     [''nr'', ''patient_id'', ''eds_end_4digit'', ''eds_manual'', ''DOB'', ''begin_date'',
      ''end_date'', ''death_date'', ''death_hosp'', ''eds_final_id'',
      ''eds_final_begin'', ''eds_final_end'', ''eds_final_patient_id'',
      ''eds_final_birth'', ''eds_final_death'', ''eds_final_birth_str'',
      ''date_from'', ''date_to'', ''patient_id_manual'', ''stroke_onset_date'', ''Referral'',
      ''match_by'', ''multiple_id'']"

definition identification_columns :: "string list" where
  "identification_columns = [''case_admission_id'', ''sample_date'']"

definition target_structure_columns :: "string list" where
  "target_structure_columns =
     [''case_admission_id'', ''sample_date'', ''analyse_label'', ''dosage_label'',
      ''material_label'', ''unit_of_measure'', ''value'', ''lower_limit'', ''upper_limit'']"

text \<open>\<^verbatim>\<open>utils.create_ehr_case_identification_column\<close>. \<^verbatim>\<open>astype(str)\<close> prints NaN as
  \<open>nan\<close>; \<^verbatim>\<open>Series.str.zfill(4)\<close> pads on the left with zeros (the pandas 1 series the
  repository runs on gives a sign no special place) and leaves NaN as it is.\<close>

definition astype_str :: "string option \<Rightarrow> string" where
  "astype_str c = (case c of None \<Rightarrow> ''nan'' | Some s \<Rightarrow> s)"

definition zfill :: "nat \<Rightarrow> string \<Rightarrow> string" where
  "zfill width s = replicate (width - length s) (CHR ''0'') @ s"

definition create_ehr_case_identification_column :: "frame \<Rightarrow> error + string list" where
  "create_ehr_case_identification_column df =
     (if ''patient_id'' \<notin> set (columns df) then Inl (KeyError ''patient_id'')
      else if ''eds_end_4digit'' \<notin> set (columns df) then Inl (KeyError ''eds_end_4digit'')
      else Inr (map (\<lambda>r. astype_str (cell_of r ''patient_id'') @ ''_'' @
                          astype_str (map_option (zfill 4) (cell_of r ''eds_end_4digit'')))
                 (rows df)))"

definition assign_column :: "string \<Rightarrow> string option list \<Rightarrow> frame \<Rightarrow> frame" where
  "assign_column c cells df =
     \<lparr>columns = (if c \<in> set (columns df) then columns df else columns df @ [c]),
      rows = map2 (\<lambda>r v. (c, v) # r) (rows df) cells\<rparr>"

definition drop_columns :: "string list \<Rightarrow> frame \<Rightarrow> frame" where
  "drop_columns cs df =
     \<lparr>columns = filter (\<lambda>c. c \<notin> set cs) (columns df),
      rows = map (filter (\<lambda>(c, v). c \<notin> set cs)) (rows df)\<rparr>"

text \<open>The body of the loop over \<^verbatim>\<open>lab_names\<close>: one analyte's columns beside the
  identification columns, without the rows whose \<open>{lab_name}_value\<close> is NaN, the field
  names stripped of the analyte prefix, every row tagged with the analyte.\<close>

definition individual_lab_df :: "frame \<Rightarrow> string \<Rightarrow> error + frame" where
  "individual_lab_df lab_df lab_name =
     (let selected_columns =
            identification_columns @ filter (\<lambda>c. split_head c = lab_name) (columns lab_df);
          new_columns =
            identification_columns @
            map split_rest (filter (\<lambda>c. startswith c lab_name) selected_columns)
      in case find (\<lambda>c. c \<notin> set (columns lab_df)) selected_columns of
           Some c \<Rightarrow> Inl (KeyError c)
         | None \<Rightarrow>
             if lab_name @ ''_value'' \<notin> set selected_columns
             then Inl (KeyError (lab_name @ ''_value''))
             else if length new_columns \<noteq> length selected_columns then Inl LengthMismatch
             else Inr
               \<lparr>columns = (if ''lab_name'' \<in> set new_columns then new_columns
                            else new_columns @ [''lab_name'']),
                rows = map (\<lambda>r. (''lab_name'', Some lab_name) #
                                   zip new_columns (map (cell_of r) selected_columns))
                         (filter (\<lambda>r. cell_of r (lab_name @ ''_value'') \<noteq> None) (rows lab_df))\<rparr>)"

definition concat_frames :: "frame list \<Rightarrow> error + frame" where
  "concat_frames dfs =
     (if dfs = [] then Inl NoObjectsToConcatenate
      else Inr \<lparr>columns = unique (concat (map columns dfs)), rows = concat (map rows dfs)\<rparr>)"

text \<open>
  The \<^verbatim>\<open>else\<close> branch of the shape test. \<^verbatim>\<open>lab_names\<close> is a Python set, whose
  iteration order the language leaves open: the order is the parameter
  \<open>set_iteration\<close>, which is handed the list the set is built from.
\<close>

definition lab_names :: "frame \<Rightarrow> string list" where
  "lab_names lab_df = map split_head (filter (\<lambda>c. c \<notin> set identification_columns) (columns lab_df))"

definition reorganise :: "(string list \<Rightarrow> string list) \<Rightarrow> frame \<Rightarrow> error + frame" where
  "reorganise set_iteration lab_df =
     (case for_each (individual_lab_df lab_df) (set_iteration (lab_names lab_df)) of
        Inl e \<Rightarrow> Inl e
      | Inr lab_df_split_by_lab_name \<Rightarrow> concat_frames lab_df_split_by_lab_name)"

text \<open>Lines 45 to 74 of \<^verbatim>\<open>preprocess_labs\<close>: the case identifier, the dropped columns
  (\<^verbatim>\<open>DataFrame.drop\<close> raises on a column that is not there) and the shape test.\<close>

definition reorganised_lab_df :: "(string list \<Rightarrow> string list) \<Rightarrow> frame \<Rightarrow> error + frame" where
  "reorganised_lab_df set_iteration lab_df =
     (case create_ehr_case_identification_column lab_df of
        Inl e \<Rightarrow> Inl e
      | Inr ids \<Rightarrow>
          (let lab_df = assign_column ''case_admission_id'' (map Some ids) lab_df
           in case find (\<lambda>c. c \<notin> set (columns lab_df)) columns_to_drop of
                Some c \<Rightarrow> Inl (KeyError c)
              | None \<Rightarrow>
                  (let lab_df = drop_columns columns_to_drop lab_df
                   in if set target_structure_columns \<subseteq> set (columns lab_df) then Inr lab_df
                      else reorganise set_iteration lab_df)))"

text \<open>The long table as typed rows. The code raises \<^verbatim>\<open>KeyError\<close> where it first reads
  a column the table lacks; here the four columns it reads are looked for at once.\<close>

definition named_columns :: "string list" where
  "named_columns =
     [''case_admission_id'', ''dosage_label'', ''material_label'', ''unit_of_measure'', ''value'']"

definition as_lab_row :: "string list \<Rightarrow> raw_row \<Rightarrow> cell lab_row" where
  "as_lab_row cols r =
     \<lparr>case_admission_id = cell_of r ''case_admission_id'',
      dosage_label = cell_of r ''dosage_label'',
      material_label = cell_of r ''material_label'',
      unit_of_measure = cell_of r ''unit_of_measure'',
      val = (case cell_of r ''value'' of None \<Rightarrow> Missing | Some s \<Rightarrow> Text s),
      other_columns = map (\<lambda>c. (c, cell_of r c)) (filter (\<lambda>c. c \<notin> set named_columns) cols)\<rparr>"

definition as_lab_rows :: "frame \<Rightarrow> error + cell lab_row list" where
  "as_lab_rows df =
     (case find (\<lambda>c. c \<notin> set (columns df)) named_columns of
        Some c \<Rightarrow> Inl (KeyError c)
      | None \<Rightarrow> Inr (map (as_lab_row (columns df)) (rows df)))"

section \<open>The stages of \<^verbatim>\<open>preprocess_labs\<close>\<close>

text \<open>
  What the function reads beside the table: its arguments, the three reference tables
  it loads from files beside the module, and two pieces of its environment: pandas'
  numeric parser \<^verbatim>\<open>pd.to_numeric(..., errors='coerce')\<close>, which yields no number
  (\<^term>\<open>None\<close>) for a text it cannot read, and the iteration order of a Python set.
  \<open>equivalent_labels\<close> holds the columns of \<^verbatim>\<open>equivalent_labels.csv\<close> after
  \<^verbatim>\<open>dropna()\<close>, \<open>dosage_units\<close> the columns of \<^verbatim>\<open>dosage_units.csv\<close> under their names,
  \<open>possible_value_ranges\<close> the rows of the range sheet as (variable label, Min, Max).
\<close>

record config =
  selected_variables :: "string list"
  material_to_include :: "string list"
  equivalent_labels :: "string list list"
  dosage_units :: "(string \<times> string option list) list"
  possible_value_ranges :: "(string option \<times> rat option \<times> rat option) list"
  to_numeric :: "string \<Rightarrow> rat option"
  set_iteration :: "string list \<Rightarrow> string list"

subsection \<open>Labels\<close>

text \<open>The loop over the columns of the equivalence table; \<^verbatim>\<open>equivalence_list[0]\<close> of a
  column without entries raises.\<close>

fun align_equivalent_labels :: "string list list \<Rightarrow> 'v lab_row list \<Rightarrow> error + 'v lab_row list" where
  "align_equivalent_labels [] df = Inr df"
| "align_equivalent_labels (equivalence_list # remaining) df =
     (case equivalence_list of
        [] \<Rightarrow> Inl IndexError
      | canonical # synonyms \<Rightarrow>
          align_equivalent_labels remaining
            (map (\<lambda>r. if isin (dosage_label r) synonyms
                       then r\<lparr>dosage_label := Some canonical\<rparr> else r) df))"

text \<open>\<^verbatim>\<open>utils.remove_french_accents_and_cedillas_from_dataframe\<close>, over every column of
  strings; \<^verbatim>\<open>.str\<close> turns a cell that is not a string into NaN.\<close>

definition remove_french_accents_and_cedillas_from_dataframe :: "cell lab_row list \<Rightarrow> cell lab_row list" where
  "remove_french_accents_and_cedillas_from_dataframe df =
     map (\<lambda>r. \<lparr>case_admission_id = map_option remove_accents (case_admission_id r),
                dosage_label = map_option remove_accents (dosage_label r),
                material_label = map_option remove_accents (material_label r),
                unit_of_measure = map_option remove_accents (unit_of_measure r),
                val = (case val r of Text s \<Rightarrow> Text (remove_accents s) | _ \<Rightarrow> Missing),
                other_columns = map (\<lambda>(c, v). (c, map_option remove_accents v)) (other_columns r)\<rparr>) df"

definition restrict_to_selected_variables :: "string list \<Rightarrow> 'v lab_row list \<Rightarrow> 'v lab_row list" where
  "restrict_to_selected_variables selected df = filter (\<lambda>r. isin (dosage_label r) selected) df"

subsection \<open>Materials\<close>

definition blood_material_equivalents :: "string list" where
  "blood_material_equivalents =
     [''sga'', ''sgv'', ''sgvm'', ''sgc'', ''sgv ponction'', ''sgv cath'' @ [e_acute] @ ''ter'',
      ''sga cath'' @ [e_acute] @ ''ter'', ''cath'' @ [e_acute] @ ''ter art'' @ [e_acute] @ ''riel'',
      ''cath'' @ [e_acute] @ ''ter veineux'', ''plasma'', ''Sang'', ''sg cordon'',
      ''sgv catheter'', ''sga catheter'', ''catheter arteriel'', ''catheter veineux'']"

text \<open>Lines 98 to 103: every blood material becomes \<open>any_blood\<close>, then the rows of the
  materials to include are kept. (The mask of line 99 is read from the table before
  the restriction to the selected variables; on the rows still present it is the
  mask of their own material.)\<close>

definition merge_blood_materials :: "'v lab_row list \<Rightarrow> 'v lab_row list" where
  "merge_blood_materials df =
     map (\<lambda>r. if isin (material_label r) blood_material_equivalents
               then r\<lparr>material_label := Some ''any_blood''\<rparr> else r) df"

definition retain_selected_materials :: "string list \<Rightarrow> 'v lab_row list \<Rightarrow> 'v lab_row list" where
  "retain_selected_materials materials df =
     filter (\<lambda>r. isin (material_label r) materials) (merge_blood_materials df)"

definition label_contains :: "string \<Rightarrow> 'v lab_row \<Rightarrow> bool" where
  "label_contains pat r = (case dosage_label r of None \<Rightarrow> False | Some s \<Rightarrow> str_contains s pat)"

text \<open>One round of the loop over \<open>pO2\<close>, \<open>pCO2\<close>, \<open>pH\<close> (lines 106 to 119): the drop, then
  the test that raises.\<close>

definition drop_non_arterial :: "string \<Rightarrow> 'v lab_row list \<Rightarrow> 'v lab_row list" where
  "drop_non_arterial pat df =
     filter (\<lambda>r. \<not> (label_contains pat r \<and> material_label r \<noteq> Some ''sga'')) df"

definition blood_gas_round :: "string \<Rightarrow> 'v lab_row list \<Rightarrow> error + 'v lab_row list" where
  "blood_gas_round pat df =
     (let df = drop_non_arterial pat df;
          dosage_label_materials = unique (map material_label (filter (label_contains pat) df))
      in if Some ''sga'' \<in> set dosage_label_materials \<and> length dosage_label_materials > 1
         then Inl (ArterialAndOtherMaterials pat dosage_label_materials)
         else Inr df)"

fun blood_gas_rounds :: "string list \<Rightarrow> 'v lab_row list \<Rightarrow> error + 'v lab_row list" where
  "blood_gas_rounds [] df = Inr df"
| "blood_gas_rounds (pat # pats) df =
     (case blood_gas_round pat df of Inl e \<Rightarrow> Inl e | Inr df' \<Rightarrow> blood_gas_rounds pats df')"

definition blood_gas_labels :: "string list" where
  "blood_gas_labels = [''pO2'', ''pCO2'', ''pH'']"

definition fix_blood_gas_materials :: "'v lab_row list \<Rightarrow> error + 'v lab_row list" where
  "fix_blood_gas_materials df = blood_gas_rounds blood_gas_labels df"

subsection \<open>Units of measure\<close>

definition unit_of_measure_equivalents :: "string list list" where
  "unit_of_measure_equivalents = [[''UI/ml'', ''U/ml'']]"

definition unify_units :: "'v lab_row list \<Rightarrow> 'v lab_row list" where
  "unify_units df =
     fold (\<lambda>units_equivalence_list df.
             map (\<lambda>r. if isin (unit_of_measure r) (tl units_equivalence_list)
                       then r\<lparr>unit_of_measure := Some (hd units_equivalence_list)\<rparr> else r) df)
       unit_of_measure_equivalents df"

text \<open>Lines 129 to 135: for every column of the unit table, the rows of that label
  whose unit is not in the column are dropped.\<close>

definition retain_units :: "(string \<times> string option list) list \<Rightarrow> 'v lab_row list \<Rightarrow> 'v lab_row list" where
  "retain_units dosage_units_df df =
     fold (\<lambda>(label, units) df.
             filter (\<lambda>r. \<not> (dosage_label r = Some label \<and> \<not> isin_column (unit_of_measure r) units)) df)
       dosage_units_df df"

text \<open>Lines 138 to 145. A comparison with NaN selects no row.\<close>

definition units_for_dosage_label :: "string option \<Rightarrow> 'v lab_row list \<Rightarrow> string option list" where
  "units_for_dosage_label label df =
     unique (map unit_of_measure (filter (\<lambda>r. label \<noteq> None \<and> dosage_label r = label) df))"

fun check_units_loop :: "string option list \<Rightarrow> 'v lab_row list \<Rightarrow> error + unit" where
  "check_units_loop [] df = Inr ()"
| "check_units_loop (label # labels) df =
     (if length (units_for_dosage_label label df) > 1
      then Inl (DifferentUnits label (units_for_dosage_label label df))
      else check_units_loop labels df)"

definition check_units :: "'v lab_row list \<Rightarrow> error + unit" where
  "check_units df = check_units_loop (unique (map dosage_label df)) df"

subsection \<open>Values\<close>

definition non_numerical_values_to_remove :: "string list" where
  "non_numerical_values_to_remove =
     [''ERROR'', ''nan'', ''SANS RES.'', ''H'' @ [e_acute] @ ''molys'' @ [e_acute], ''Hemolyse'',
      ''sans resultat'', ''voir POCT'', ''NON REALISE'', ''NON INTERPR'' @ [E_acute] @ ''T.'',
      ''NON INTERPRET.'', ''COA'', ''TAM'', ''****.**'', ''-100000.0'', ''----'']"

definition value_isin :: "cell \<Rightarrow> string list \<Rightarrow> bool" where
  "value_isin c values = (case c of Text s \<Rightarrow> s \<in> set values | _ \<Rightarrow> False)"

text \<open>\<^verbatim>\<open>pd.to_numeric(df['value'], errors='coerce')\<close> on one cell: a float stays, a text
  is read by the parser, NaN stays NaN.\<close>

definition to_numeric_cell :: "(string \<Rightarrow> rat option) \<Rightarrow> cell \<Rightarrow> rat option" where
  "to_numeric_cell parse c = (case c of Missing \<Rightarrow> None | Text s \<Rightarrow> parse s | Number q \<Rightarrow> Some q)"

definition with_val :: "'w \<Rightarrow> 'v lab_row \<Rightarrow> 'w lab_row" where
  "with_val v r =
     \<lparr>case_admission_id = case_admission_id r, dosage_label = dosage_label r,
      material_label = material_label r, unit_of_measure = unit_of_measure r,
      val = v, other_columns = other_columns r\<rparr>"

text \<open>Lines 152 to 154: the rows left after the exclusion tokens and the missing
  values are removed from the corrected table.\<close>

definition remove_non_numerical_values :: "cell lab_row list \<Rightarrow> cell lab_row list" where
  "remove_non_numerical_values df =
     filter (\<lambda>r. val r \<noteq> Missing)
       (filter (\<lambda>r. \<not> value_isin (val r) non_numerical_values_to_remove) df)"

definition remaining_non_numerical_values :: "(string \<Rightarrow> rat option) \<Rightarrow> cell lab_row list \<Rightarrow> cell list" where
  "remaining_non_numerical_values parse df =
     unique (map val (filter (\<lambda>r. to_numeric_cell parse (val r) = None) df))"

text \<open>Lines 150 to 161.\<close>

definition process_values :: "(string \<Rightarrow> rat option) \<Rightarrow> cell lab_row list \<Rightarrow> error + rat option lab_row list" where
  "process_values parse df =
     (let df = remove_non_numerical_values (correct_non_numerical_values df)
      in if length (remaining_non_numerical_values parse df) > 0
         then Inl (RemainingNonNumericalValues (remaining_non_numerical_values parse df))
         else Inr (map (\<lambda>r. with_val (to_numeric_cell parse (val r)) r) df))"

definition hemoglobine :: "string list" where
  "hemoglobine = [''h'' @ [e_acute] @ ''moglobine'', ''hemoglobine'']"

definition negative :: "rat option \<Rightarrow> bool" where
  "negative v = (case v of None \<Rightarrow> False | Some x \<Rightarrow> x < 0)"

definition dropna :: "rat option lab_row list \<Rightarrow> rat option lab_row list" where
  "dropna df = filter (\<lambda>r. val r \<noteq> None) df"

text \<open>Lines 163 to 170: negative haemoglobin and glucose values become NaN and are
  dropped. Lines 172 to 174 only warn; the flag says whether they do.\<close>

definition correct_negative_values :: "rat option lab_row list \<Rightarrow> rat option lab_row list" where
  "correct_negative_values df =
     (let df = map (\<lambda>r. if isin (dosage_label r) hemoglobine \<and> negative (val r)
                         then r\<lparr>val := None\<rparr> else r) df;
          df = map (\<lambda>r. if dosage_label r = Some ''glucose'' \<and> negative (val r)
                         then r\<lparr>val := None\<rparr> else r) df
      in dropna df)"

definition negative_values_present :: "rat option lab_row list \<Rightarrow> bool" where
  "negative_values_present df =
     (length (filter (\<lambda>r. negative (val r) \<and> \<not> label_contains ''cBase'' r) df) > 0)"

subsection \<open>Plausible ranges\<close>

text \<open>\<^verbatim>\<open>Series.between(Min, Max)\<close> includes both bounds; a comparison with NaN is false.\<close>

definition between :: "rat option \<Rightarrow> rat option \<Rightarrow> rat option \<Rightarrow> bool" where
  "between left right v =
     (case (left, right, v) of (Some l, Some h, Some x) \<Rightarrow> l \<le> x \<and> x \<le> h | _ \<Rightarrow> False)"

type_synonym range_row = "string option \<times> rat option \<times> rat option"

text \<open>\<^verbatim>\<open>possible_value_ranges['variable_label'].dropna().unique()\<close>, and the first row
  of a variable, whose \<open>Min\<close> and \<open>Max\<close> the loop reads (\<^verbatim>\<open>.values[0]\<close>).\<close>

definition range_variables :: "range_row list \<Rightarrow> string list" where
  "range_variables ranges = unique (concat (map (\<lambda>(v, mn, mx). case v of None \<Rightarrow> [] | Some s \<Rightarrow> [s]) ranges))"

definition possible_value_ranges_for_variable :: "range_row list \<Rightarrow> string \<Rightarrow> range_row option" where
  "possible_value_ranges_for_variable ranges variable = find (\<lambda>(v, mn, mx). v = Some variable) ranges"

text \<open>One round of the loop of lines 179 to 185. The variable is a label of the
  sheet, so its first row is there.\<close>

definition invalidate_out_of_range :: "range_row list \<Rightarrow> string \<Rightarrow> rat option lab_row list \<Rightarrow> rat option lab_row list" where
  "invalidate_out_of_range ranges variable df =
     (case possible_value_ranges_for_variable ranges variable of
        None \<Rightarrow> df
      | Some (v, mn, mx) \<Rightarrow>
          map (\<lambda>r. if dosage_label r = Some variable \<and> \<not> between mn mx (val r)
                    then r\<lparr>val := None\<rparr> else r) df)"

definition invalidate_all_out_of_range :: "range_row list \<Rightarrow> rat option lab_row list \<Rightarrow> rat option lab_row list" where
  "invalidate_all_out_of_range ranges df =
     fold (invalidate_out_of_range ranges) (range_variables ranges) df"

definition isna_sum :: "rat option lab_row list \<Rightarrow> nat" where
  "isna_sum df = length (filter (\<lambda>r. val r = None) df)"

subsection \<open>Statistics\<close>

text \<open>
  \<^verbatim>\<open>groupby(['case_admission_id', 'dosage_label'])['value'].count().reset_index()\<close>:
  one row per pair of keys present, in the order of the keys, with the number of
  values that are not NaN; rows with a NaN key belong to no group.
\<close>

definition group_key :: "'v lab_row \<Rightarrow> (string \<times> string) option" where
  "group_key r =
     (case (case_admission_id r, dosage_label r) of (Some c, Some l) \<Rightarrow> Some (c, l) | _ \<Rightarrow> None)"

definition observations_per_case_admission_id :: "rat option lab_row list \<Rightarrow> ((string \<times> string) \<times> nat) list" where
  "observations_per_case_admission_id df =
     map (\<lambda>k. (k, length (filter (\<lambda>r. group_key r = Some k \<and> val r \<noteq> None) df)))
       (sort (remdups (concat (map (\<lambda>r. case group_key r of None \<Rightarrow> [] | Some k \<Rightarrow> [k]) df))))"

text \<open>The median of a group of counts: the middle one, or the mean of the two middle
  ones. (An empty group, which \<^verbatim>\<open>groupby\<close> never forms, has none.)\<close>

definition median :: "nat list \<Rightarrow> rat option" where
  "median xs =
     (let s = sort xs; n = length s
      in if n = 0 then None
         else if n mod 2 = 1 then Some (of_nat (s ! (n div 2)))
         else Some ((of_nat (s ! (n div 2 - 1)) + of_nat (s ! (n div 2))) / 2))"

text \<open>\<^verbatim>\<open>.groupby('dosage_label').median()\<close> over the counts (the text column of the
  case identifiers is left out of the median).\<close>

definition median_observations_per_case_admission_id :: "rat option lab_row list \<Rightarrow> (string \<times> rat option) list" where
  "median_observations_per_case_admission_id df =
     (let counts = observations_per_case_admission_id df
      in map (\<lambda>l. (l, median (map snd (filter (\<lambda>((c, l'), n). l' = l) counts))))
           (sort (remdups (map (\<lambda>((c, l), n). l) counts))))"

subsection \<open>The pipeline\<close>

text \<open>What a call yields when it does not raise: the returned table, and what the
  function prints and logs about it.\<close>

record preprocessed =
  table :: "rat option lab_row list"
  n_observations_out_ouf_range :: nat
  median_observations :: "(string \<times> rat option) list"
  negative_values_warning :: bool

text \<open>Lines 45 to 103: the table after the restriction to the selected materials.\<close>

definition labs_of_selected_materials :: "config \<Rightarrow> frame \<Rightarrow> error + cell lab_row list" where
  "labs_of_selected_materials cfg lab_df =
     (case reorganised_lab_df (set_iteration cfg) lab_df of
        Inl e \<Rightarrow> Inl e
      | Inr df \<Rightarrow>
          (case as_lab_rows df of
             Inl e \<Rightarrow> Inl e
           | Inr df \<Rightarrow>
               (case align_equivalent_labels (equivalent_labels cfg) df of
                  Inl e \<Rightarrow> Inl e
                | Inr df \<Rightarrow>
                    Inr (retain_selected_materials (material_to_include cfg)
                          (restrict_to_selected_variables (selected_variables cfg)
                            (remove_french_accents_and_cedillas_from_dataframe df))))))"

text \<open>Lines 45 to 135: the table the unit check of lines 138 to 145 is run on.\<close>

definition labs_of_retained_units :: "config \<Rightarrow> frame \<Rightarrow> error + cell lab_row list" where
  "labs_of_retained_units cfg lab_df =
     (case labs_of_selected_materials cfg lab_df of
        Inl e \<Rightarrow> Inl e
      | Inr df \<Rightarrow>
          (case fix_blood_gas_materials df of
             Inl e \<Rightarrow> Inl e
           | Inr df \<Rightarrow> Inr (retain_units (dosage_units cfg) (unify_units df))))"

text \<open>Lines 148 to 198, on the table that passed the unit check.\<close>

definition values_and_statistics :: "config \<Rightarrow> cell lab_row list \<Rightarrow> error + preprocessed" where
  "values_and_statistics cfg df =
     (case process_values (to_numeric cfg) df of
        Inl e \<Rightarrow> Inl e
      | Inr df \<Rightarrow>
          (let df = correct_negative_values df;
               warn = negative_values_present df;
               df = invalidate_all_out_of_range (possible_value_ranges cfg) df;
               n = isna_sum df;
               df = dropna df
           in Inr \<lparr>table = df, n_observations_out_ouf_range = n,
                    median_observations = median_observations_per_case_admission_id df,
                    negative_values_warning = warn\<rparr>))"

definition preprocess_labs :: "config \<Rightarrow> frame \<Rightarrow> error + preprocessed" where
  "preprocess_labs cfg lab_df =
     (case labs_of_retained_units cfg lab_df of
        Inl e \<Rightarrow> Inl e
      | Inr df \<Rightarrow>
          (case check_units df of
             Inl e \<Rightarrow> Inl e
           | Inr u \<Rightarrow> values_and_statistics cfg df))"

section \<open>Fixtures\<close>

text \<open>\<^verbatim>\<open>_base_lab_row\<close> of \<^verbatim>\<open>tests/test_lab_preprocessing.py\<close>, and the table of
  \<^verbatim>\<open>test_preprocess_labs_median_counts\<close>.\<close>

definition base_lab_row :: raw_row where
  "base_lab_row =
     [(''nr'', Some ''0''), (''patient_id'', Some ''1''), (''eds_end_4digit'', Some ''1234''),
      (''eds_manual'', Some ''''), (''DOB'', Some ''''), (''begin_date'', Some ''''),
      (''end_date'', Some ''''), (''death_date'', Some ''''), (''death_hosp'', Some ''''),
      (''eds_final_id'', Some ''''), (''eds_final_begin'', Some ''''),
      (''eds_final_end'', Some ''''), (''eds_final_patient_id'', Some ''''),
      (''eds_final_birth'', Some ''''), (''eds_final_death'', Some ''''),
      (''eds_final_birth_str'', Some ''''), (''date_from'', Some ''''), (''date_to'', Some ''''),
      (''patient_id_manual'', Some ''''), (''stroke_onset_date'', Some ''''),
      (''Referral'', Some ''''), (''match_by'', Some ''''), (''multiple_id'', Some ''''),
      (''case_admission_id'', Some ''''), (''sample_date'', Some ''01.01.2020 12:00''),
      (''analyse_label'', Some ''albumine analysis''), (''dosage_label'', Some ''albumine''),
      (''material_label'', Some ''sga''), (''unit_of_measure'', Some ''g/l''),
      (''value'', Some ''10''), (''lower_limit'', Some ''0''), (''upper_limit'', Some ''100'')]"

definition lab_row_with :: "(string \<times> string) list \<Rightarrow> raw_row" where
  "lab_row_with overrides =
     map (\<lambda>(c, v). (c, case map_of overrides c of None \<Rightarrow> v | Some v' \<Rightarrow> Some v')) base_lab_row"

definition data_frame :: "raw_row list \<Rightarrow> frame" where
  "data_frame rs = \<lparr>columns = map fst base_lab_row, rows = rs\<rparr>"

definition median_counts_lab_df :: frame where
  "median_counts_lab_df =
     data_frame
       [lab_row_with [(''value'', ''10'')],
        lab_row_with [(''value'', ''20'')],
        lab_row_with [(''patient_id'', ''2''), (''eds_end_4digit'', ''9999''), (''value'', ''30'')]]"

text \<open>A reader of plain decimal numerals (an optional minus sign, digits, an optional
  fraction), on which it agrees with \<^verbatim>\<open>pd.to_numeric\<close> and with Python's \<^verbatim>\<open>float\<close>; it
  reads no other text. The examples below run with it in the place of the parser.\<close>

definition digit_of :: "char \<Rightarrow> nat option" where
  "digit_of c = (let n = (of_char c :: nat) in if 48 \<le> n \<and> n \<le> 57 then Some (n - 48) else None)"

fun digits_value :: "nat \<Rightarrow> string \<Rightarrow> nat option" where
  "digits_value acc [] = Some acc"
| "digits_value acc (c # cs) =
     (case digit_of c of None \<Rightarrow> None | Some d \<Rightarrow> digits_value (10 * acc + d) cs)"

definition plain_decimal :: "string \<Rightarrow> rat option" where
  "plain_decimal s =
     (let body = (if startswith s ''-'' then drop 1 s else s);
          whole = takeWhile (\<lambda>c. c \<noteq> CHR ''.'') body;
          point = dropWhile (\<lambda>c. c \<noteq> CHR ''.'') body;
          fraction = drop 1 point
      in if whole = [] \<or> (point \<noteq> [] \<and> fraction = []) then None
         else (case (digits_value 0 whole, digits_value 0 fraction) of
                 (Some w, Some f) \<Rightarrow>
                   Some ((if startswith s ''-'' then -1 else 1) *
                         (of_nat w + of_nat f / 10 ^ length fraction))
               | _ \<Rightarrow> None))"

text \<open>The call of the test: one selected variable, the default material, and empty
  reference tables.\<close>

definition albumine_config :: config where
  "albumine_config =
     \<lparr>selected_variables = [''albumine''], material_to_include = [''any_blood''],
      equivalent_labels = [], dosage_units = [], possible_value_ranges = [],
      to_numeric = plain_decimal, set_iteration = remdups\<rparr>"

section \<open>Auxiliary notions of the proofs\<close>

text \<open>The columns of a row that no stage after the unit reconciliation rewrites, and the
  error of line 119.\<close>

definition row_keys :: "'v lab_row \<Rightarrow> string option \<times> string option \<times> string option \<times> string option" where
  "row_keys r = (case_admission_id r, dosage_label r, material_label r, unit_of_measure r)"

definition is_material_error :: "error \<Rightarrow> bool" where
  "is_material_error e = (case e of ArterialAndOtherMaterials pat ms \<Rightarrow> True | _ \<Rightarrow> False)"

text \<open>Tables and calls of the examples: a \<open>pH\<close> row drawn from arterial and one from
  venous blood; blood-gas rows beside an albumin row; two albumin rows in different
  units.\<close>

definition arterial_and_venous_lab_df :: frame where
  "arterial_and_venous_lab_df =
     data_frame
       [lab_row_with [(''dosage_label'', ''pH''), (''material_label'', ''sga''),
                      (''unit_of_measure'', ''''), (''value'', ''7.40'')],
        lab_row_with [(''dosage_label'', ''pH''), (''material_label'', ''sgv''),
                      (''unit_of_measure'', ''''), (''value'', ''7.35'')]]"

definition pH_config :: config where
  "pH_config = albumine_config\<lparr>selected_variables := [''pH'']\<rparr>"

definition blood_gas_lab_df :: frame where
  "blood_gas_lab_df =
     data_frame
       [lab_row_with [(''dosage_label'', ''pH''), (''material_label'', ''sga''),
                      (''unit_of_measure'', ''''), (''value'', ''7.40'')],
        lab_row_with [(''dosage_label'', ''pCO2''), (''material_label'', ''sgv''),
                      (''unit_of_measure'', ''kPa''), (''value'', ''5.3'')],
        lab_row_with [(''value'', ''35'')]]"

definition blood_gas_config :: config where
  "blood_gas_config = albumine_config\<lparr>selected_variables := [''pH'', ''pCO2'', ''albumine'']\<rparr>"

definition two_units_lab_df :: frame where
  "two_units_lab_df =
     data_frame
       [lab_row_with [(''value'', ''35'')],
        lab_row_with [(''unit_of_measure'', ''mg/l''), (''value'', ''35000'')]]"

definition arterial_pH_row :: "cell lab_row" where
  "arterial_pH_row =
     \<lparr>case_admission_id = Some ''1_1234'', dosage_label = Some ''pH'',
      material_label = Some ''sga'', unit_of_measure = Some '''', val = Text ''7.40'',
      other_columns = []\<rparr>"

definition venous_pH_row :: "cell lab_row" where
  "venous_pH_row = arterial_pH_row\<lparr>material_label := Some ''sgv'', val := Text ''7.35''\<rparr>"






text \<open>A wide table: the columns the function drops, the sample date and the two glucose
  columns; one row with a glucose value and one without.\<close>

definition wide_row :: "string option \<Rightarrow> raw_row" where
  "wide_row v =
     filter (\<lambda>(c, x). c \<in> set columns_to_drop \<or> c = ''sample_date'') base_lab_row @
     [(''glucose_value'', v), (''glucose_unit'', Some ''mmol/l'')]"

definition wide_lab_df :: frame where
  "wide_lab_df =
     \<lparr>columns = columns_to_drop @ [''sample_date'', ''glucose_value'', ''glucose_unit''],
      rows = [wide_row (Some ''5.5''), wide_row None]\<rparr>"

section \<open>Properties\<close>

subsection \<open>The censored-value rules\<close>

lemma apply_rule_tuple:
  "apply_rule (labels, cmp, literal, threshold) df =
     loc_assign labels literal (estimate cmp threshold) df"
  by (simp add: apply_rule_def)

lemma correct_as_fold:
  "correct_non_numerical_values df =
     fold apply_rule censored_value_rules
       (map (\<lambda>r. r\<lparr>val := str_replace_apostrophe (val r)\<rparr>) df)"
  by (simp add: correct_non_numerical_values_def censored_value_rules_def apply_rule_tuple
      estimate_def Let_def)

lemma find_rule_Number: "find (rule_matches l (Number q)) rs = None"
  by (induction rs) (auto simp: rule_matches_def)

lemma fold_apply_rule:
  "fold apply_rule rules df =
     map (\<lambda>r. r\<lparr>val := censored_estimate rules (dosage_label r) (val r)\<rparr>) df"
proof (induction rules arbitrary: df)
  case Nil
  then show ?case by (simp add: censored_estimate_def)
next
  case (Cons rule rules)
  obtain labels cmp literal threshold where rule: "rule = (labels, cmp, literal, threshold)"
    by (cases rule) auto
  show ?case
    by (simp add: Cons.IH rule apply_rule_tuple loc_assign_def censored_estimate_def
        rule_matches_def find_rule_Number)
qed

lemma correct_non_numerical_values_eq:
  "correct_non_numerical_values df =
     map (\<lambda>r. r\<lparr>val := censored_estimate censored_value_rules (dosage_label r)
                          (str_replace_apostrophe (val r))\<rparr>) df"
  by (simp add: correct_as_fold fold_apply_rule o_def)

lemma estimate_glucose:
  "censored_estimate censored_value_rules (Some ''glucose'')
     (str_replace_apostrophe (Text ''>83.2'')) = Number (83.2 * 1.05)"
  by (simp add: censored_estimate_def censored_value_rules_def rule_matches_def isin_def
      str_replace_apostrophe_def apostrophe_def estimate_def)

lemma estimate_ALAT:
  "censored_estimate censored_value_rules (Some ''ALAT'')
     (str_replace_apostrophe (Text ''<5'')) = Number (5 * 0.95)"
  by (simp add: censored_estimate_def censored_value_rules_def rule_matches_def isin_def
      str_replace_apostrophe_def apostrophe_def estimate_def anti_Xa_DOAC_def fibrinogene_def
      anti_Xa_HBPM_def anti_Xa_HNF_def proteine_C_reactive_def e_acute_def e_grave_def)

text \<open>
  Claim C5 (censored-value law). \<^verbatim>\<open>correct_non_numerical_values\<close> strips the
  apostrophes of every value and then replaces a value exactly where the row's label
  and the stripped text are a (label, literal) pair of the fixed rule table, by the
  threshold times 1.05 for a \<open>>\<close> literal and times 0.95 for a \<open><\<close> literal; every
  other value is left as stripped. In any table, a \<open>glucose\<close> row with the value
  \<open>>83.2\<close> gets 83.2 * 1.05 = 87.36 and an \<open>ALAT\<close> row with \<open><5\<close> gets 5 * 0.95 = 4.75.
\<close>

theorem censored_value_law:
  "correct_non_numerical_values df =
     map (\<lambda>r. r\<lparr>val := censored_estimate censored_value_rules (dosage_label r)
                          (str_replace_apostrophe (val r))\<rparr>) df
   \<and> correct_non_numerical_values
       (xs @ [r\<lparr>dosage_label := Some ''glucose'', val := Text ''>83.2''\<rparr>] @ ys) =
     correct_non_numerical_values xs @
       [r\<lparr>dosage_label := Some ''glucose'', val := Number (83.2 * 1.05)\<rparr>] @
     correct_non_numerical_values ys
   \<and> correct_non_numerical_values
       (xs @ [r\<lparr>dosage_label := Some ''ALAT'', val := Text ''<5''\<rparr>] @ ys) =
     correct_non_numerical_values xs @
       [r\<lparr>dosage_label := Some ''ALAT'', val := Number (5 * 0.95)\<rparr>] @
     correct_non_numerical_values ys
   \<and> (83.2 * 1.05 :: rat) = 87.36 \<and> (5 * 0.95 :: rat) = 4.75"
proof -
  have general: "correct_non_numerical_values t =
     map (\<lambda>r. r\<lparr>val := censored_estimate censored_value_rules (dosage_label r)
                          (str_replace_apostrophe (val r))\<rparr>) t" for t
    by (rule correct_non_numerical_values_eq)
  have glucose: "correct_non_numerical_values
       (xs @ [r\<lparr>dosage_label := Some ''glucose'', val := Text ''>83.2''\<rparr>] @ ys) =
     correct_non_numerical_values xs @
       [r\<lparr>dosage_label := Some ''glucose'', val := Number (83.2 * 1.05)\<rparr>] @
     correct_non_numerical_values ys"
    unfolding general by (simp add: estimate_glucose)
  have alat: "correct_non_numerical_values
       (xs @ [r\<lparr>dosage_label := Some ''ALAT'', val := Text ''<5''\<rparr>] @ ys) =
     correct_non_numerical_values xs @
       [r\<lparr>dosage_label := Some ''ALAT'', val := Number (5 * 0.95)\<rparr>] @
     correct_non_numerical_values ys"
    unfolding general by (simp add: estimate_ALAT)
  have arith: "(83.2 * 1.05 :: rat) = 87.36 \<and> (5 * 0.95 :: rat) = 4.75"
    by simp
  show ?thesis
    using general glucose alat arith by blast
qed

subsection \<open>Materials and units\<close>

lemma set_unique [simp]: "set (unique xs) = set xs"
  by (induction xs rule: unique.induct) auto

lemma distinct_unique [simp]: "distinct (unique xs)"
  by (induction xs rule: unique.induct) auto

lemma length_unique: "length (unique xs) = card (set xs)"
  using distinct_card[OF distinct_unique, of xs] by simp

lemma unique_all_equal: "(\<And>y. y \<in> set xs \<Longrightarrow> y = x) \<Longrightarrow> length (unique xs) \<le> 1"
proof -
  assume a: "\<And>y. y \<in> set xs \<Longrightarrow> y = x"
  have "set xs \<subseteq> {x}" using a by auto
  then have "card (set xs) \<le> card {x}" by (intro card_mono) auto
  then show ?thesis by (simp add: length_unique)
qed

lemma length_unique_le_1: "length (unique xs) \<le> 1 \<Longrightarrow> a \<in> set xs \<Longrightarrow> b \<in> set xs \<Longrightarrow> a = b"
proof -
  assume l: "length (unique xs) \<le> 1" and a: "a \<in> set xs" and b: "b \<in> set xs"
  have "card (set xs) \<le> 1" using l by (simp add: length_unique)
  then show "a = b" using a b
    by (metis List.finite_set card_le_Suc0_iff_eq One_nat_def)
qed

lemma merge_no_sga: "r \<in> set (merge_blood_materials df) \<Longrightarrow> material_label r \<noteq> Some ''sga''"
  by (auto simp: merge_blood_materials_def isin_def blood_material_equivalents_def split: option.splits if_splits)

lemma blood_gas_round_never_raises: "blood_gas_round pat df = Inr (drop_non_arterial pat df)"
proof -
  have "length (unique (map material_label (filter (label_contains pat) (drop_non_arterial pat df)))) \<le> 1"
    by (rule unique_all_equal[where x = "Some ''sga''"]) (auto simp: drop_non_arterial_def)
  then show ?thesis by (simp add: blood_gas_round_def Let_def)
qed

lemma fix_blood_gas_materials_eq:
  "fix_blood_gas_materials df =
     Inr (drop_non_arterial ''pH'' (drop_non_arterial ''pCO2'' (drop_non_arterial ''pO2'' df)))"
  by (simp add: fix_blood_gas_materials_def blood_gas_labels_def blood_gas_round_never_raises)

lemma row_keys_val [simp]: "row_keys (r\<lparr>val := v\<rparr>) = row_keys r"
  by (simp add: row_keys_def)

lemma row_keys_with_val [simp]: "row_keys (with_val v r) = row_keys r"
  by (simp add: row_keys_def with_val_def)

lemma keys_correct: "map row_keys (correct_non_numerical_values df) = map row_keys df"
  by (simp add: correct_non_numerical_values_eq o_def)

lemma keys_process_values:
  assumes "process_values parse df = Inr out"
  shows "row_keys ` set out \<subseteq> row_keys ` set df"
proof -
  have "out = map (\<lambda>r. with_val (to_numeric_cell parse (val r)) r)
                (remove_non_numerical_values (correct_non_numerical_values df))"
    using assms by (simp add: process_values_def Let_def split: if_splits)
  then have "row_keys ` set out \<subseteq> row_keys ` set (correct_non_numerical_values df)"
    by (auto simp: remove_non_numerical_values_def)
  also have "\<dots> = set (map row_keys (correct_non_numerical_values df))" by simp
  also have "\<dots> = row_keys ` set df" by (simp add: keys_correct)
  finally show ?thesis .
qed

lemma keys_correct_negative: "row_keys ` set (correct_negative_values df) \<subseteq> row_keys ` set df"
  by (auto simp: correct_negative_values_def dropna_def Let_def)

lemma keys_invalidate_one:
  "map row_keys (invalidate_out_of_range ranges v df) = map row_keys df"
  by (auto simp: invalidate_out_of_range_def split: option.splits)

lemma keys_fold_invalidate:
  "map row_keys (fold (invalidate_out_of_range ranges) vs df) = map row_keys df"
  by (induction vs arbitrary: df) (simp_all add: keys_invalidate_one)

lemma keys_invalidate_all: "map row_keys (invalidate_all_out_of_range ranges df) = map row_keys df"
  by (simp add: invalidate_all_out_of_range_def keys_fold_invalidate)

lemma keys_values_and_statistics:
  assumes "values_and_statistics cfg df = Inr out"
  shows "row_keys ` set (table out) \<subseteq> row_keys ` set df"
proof -
  obtain t where t: "process_values (to_numeric cfg) df = Inr t"
    and out: "table out = dropna (invalidate_all_out_of_range (possible_value_ranges cfg) (correct_negative_values t))"
    using assms by (auto simp: values_and_statistics_def Let_def split: sum.splits)
  have "row_keys ` set (table out) \<subseteq> row_keys ` set (invalidate_all_out_of_range (possible_value_ranges cfg) (correct_negative_values t))"
    unfolding out by (auto simp: dropna_def)
  also have "\<dots> = set (map row_keys (invalidate_all_out_of_range (possible_value_ranges cfg) (correct_negative_values t)))"
    by simp
  also have "\<dots> = row_keys ` set (correct_negative_values t)"
    by (simp add: keys_invalidate_all)
  also have "\<dots> \<subseteq> row_keys ` set t" by (rule keys_correct_negative)
  also have "\<dots> \<subseteq> row_keys ` set df" by (rule keys_process_values[OF t])
  finally show ?thesis .
qed

lemma preprocess_labs_Inr:
  assumes "preprocess_labs cfg lab_df = Inr out"
  obtains t where "labs_of_retained_units cfg lab_df = Inr t" "check_units t = Inr ()"
    "values_and_statistics cfg t = Inr out"
  using assms by (auto simp: preprocess_labs_def split: sum.splits)

lemma labs_of_retained_units_Inr:
  assumes "labs_of_retained_units cfg lab_df = Inr t"
  obtains s where "labs_of_selected_materials cfg lab_df = Inr s"
    "t = retain_units (dosage_units cfg) (unify_units
           (drop_non_arterial ''pH'' (drop_non_arterial ''pCO2'' (drop_non_arterial ''pO2'' s))))"
  using assms by (auto simp: labs_of_retained_units_def fix_blood_gas_materials_eq split: sum.splits)

lemma set_fold_filter:
  "set (fold (\<lambda>x df. filter (P x) df) xs df) \<subseteq> set df"
proof (induction xs arbitrary: df)
  case Nil
  then show ?case by simp
next
  case (Cons x xs)
  have "set (fold (\<lambda>x df. filter (P x) df) xs (filter (P x) df)) \<subseteq> set (filter (P x) df)"
    by (rule Cons.IH)
  then show ?case by auto
qed

lemma retain_units_fold:
  "retain_units du df =
     fold (\<lambda>x df. filter (\<lambda>r. \<not> (dosage_label r = Some (fst x) \<and> \<not> isin_column (unit_of_measure r) (snd x))) df) du df"
  unfolding retain_units_def
  by (rule arg_cong[where f = "\<lambda>f. fold f du df"]) (auto simp: fun_eq_iff)

lemma set_retain_units: "set (retain_units du df) \<subseteq> set df"
  unfolding retain_units_fold by (rule set_fold_filter)

lemma unify_units_labels:
  "r \<in> set (unify_units df) \<Longrightarrow> \<exists>r' \<in> set df. dosage_label r = dosage_label r' \<and> material_label r = material_label r'"
  by (auto simp: unify_units_def unit_of_measure_equivalents_def)

lemma for_each_Inl: "for_each f xs = Inl e \<Longrightarrow> \<exists>x \<in> set xs. f x = Inl e"
  by (induction xs) (auto split: sum.splits)

lemma individual_lab_df_error: "individual_lab_df df n = Inl e \<Longrightarrow> \<not> is_material_error e"
  by (auto simp: individual_lab_df_def Let_def is_material_error_def split: option.splits if_splits)

lemma reorganise_error: "reorganise it df = Inl e \<Longrightarrow> \<not> is_material_error e"
  by (auto simp: reorganise_def concat_frames_def is_material_error_def
      split: sum.splits if_splits dest!: for_each_Inl individual_lab_df_error)

lemma reorganised_lab_df_error: "reorganised_lab_df it df = Inl e \<Longrightarrow> \<not> is_material_error e"
  by (auto simp: reorganised_lab_df_def create_ehr_case_identification_column_def Let_def is_material_error_def
      split: sum.splits option.splits if_splits dest!: reorganise_error)

lemma as_lab_rows_error: "as_lab_rows df = Inl e \<Longrightarrow> \<not> is_material_error e"
  by (auto simp: as_lab_rows_def is_material_error_def split: option.splits)

lemma align_error: "align_equivalent_labels eq df = Inl e \<Longrightarrow> e = IndexError"
  by (induction eq df rule: align_equivalent_labels.induct) (auto split: list.splits)

lemma labs_of_selected_materials_error:
  "labs_of_selected_materials cfg df = Inl e \<Longrightarrow> \<not> is_material_error e"
  by (auto simp: labs_of_selected_materials_def is_material_error_def
      split: sum.splits dest: reorganised_lab_df_error as_lab_rows_error align_error)

lemma check_units_loop_error: "check_units_loop ls df = Inl e \<Longrightarrow> \<exists>l us. e = DifferentUnits l us"
  by (induction ls) (auto split: if_splits)

lemma process_values_error: "process_values p df = Inl e \<Longrightarrow> \<exists>vs. e = RemainingNonNumericalValues vs"
  by (auto simp: process_values_def Let_def split: if_splits)

lemma preprocess_labs_error: "preprocess_labs cfg df = Inl e \<Longrightarrow> \<not> is_material_error e"
  by (auto simp: preprocess_labs_def labs_of_retained_units_def fix_blood_gas_materials_eq check_units_def
      values_and_statistics_def Let_def is_material_error_def
      split: sum.splits dest: labs_of_selected_materials_error check_units_loop_error process_values_error)

lemma selected_materials_no_sga:
  "labs_of_selected_materials cfg df = Inr s \<Longrightarrow> r \<in> set s \<Longrightarrow> material_label r \<noteq> Some ''sga''"
  by (auto simp: labs_of_selected_materials_def retain_selected_materials_def
      split: sum.splits dest: merge_no_sga)

lemma selected_materials_default:
  "material_to_include cfg = [''any_blood''] \<Longrightarrow> labs_of_selected_materials cfg df = Inr s \<Longrightarrow>
   r \<in> set s \<Longrightarrow> material_label r = Some ''any_blood''"
  by (auto simp: labs_of_selected_materials_def retain_selected_materials_def isin_def
      split: sum.splits option.splits)

lemma label_contains_cong: "dosage_label r = dosage_label r' \<Longrightarrow> label_contains pat r = label_contains pat r'"
  by (simp add: label_contains_def)

lemma table_rows_origin:
  assumes "preprocess_labs cfg lab_df = Inr out" and "r \<in> set (table out)"
  obtains s r' where "labs_of_selected_materials cfg lab_df = Inr s"
    "r' \<in> set (drop_non_arterial ''pH'' (drop_non_arterial ''pCO2'' (drop_non_arterial ''pO2'' s)))"
    "dosage_label r = dosage_label r'" "material_label r = material_label r'"
proof -
  obtain t where t: "labs_of_retained_units cfg lab_df = Inr t" and v: "values_and_statistics cfg t = Inr out"
    using assms(1) by (rule preprocess_labs_Inr)
  obtain s where s: "labs_of_selected_materials cfg lab_df = Inr s"
    and teq: "t = retain_units (dosage_units cfg) (unify_units
           (drop_non_arterial ''pH'' (drop_non_arterial ''pCO2'' (drop_non_arterial ''pO2'' s))))"
    using t by (rule labs_of_retained_units_Inr)
  have "row_keys r \<in> row_keys ` set t"
    using keys_values_and_statistics[OF v] assms(2) by auto
  then obtain r1 where r1: "r1 \<in> set t" "row_keys r = row_keys r1" by auto
  have "r1 \<in> set (unify_units (drop_non_arterial ''pH'' (drop_non_arterial ''pCO2'' (drop_non_arterial ''pO2'' s))))"
    using r1(1) set_retain_units unfolding teq by blast
  then obtain r' where r': "r' \<in> set (drop_non_arterial ''pH'' (drop_non_arterial ''pCO2'' (drop_non_arterial ''pO2'' s)))"
    "dosage_label r1 = dosage_label r'" "material_label r1 = material_label r'"
    using unify_units_labels by blast
  show ?thesis
    using that[OF s r'(1)] r1(2) r'(2,3) by (simp add: row_keys_def)
qed

lemma table_no_blood_gas:
  assumes "preprocess_labs cfg lab_df = Inr out" and "r \<in> set (table out)"
  shows "\<not> label_contains ''pO2'' r \<and> \<not> label_contains ''pCO2'' r \<and> \<not> label_contains ''pH'' r"
proof -
  obtain s r' where s: "labs_of_selected_materials cfg lab_df = Inr s"
    and r': "r' \<in> set (drop_non_arterial ''pH'' (drop_non_arterial ''pCO2'' (drop_non_arterial ''pO2'' s)))"
    and eq: "dosage_label r = dosage_label r'" "material_label r = material_label r'"
    using assms by (rule table_rows_origin)
  have in_s: "r' \<in> set s" using r' by (auto simp: drop_non_arterial_def)
  have "material_label r' \<noteq> Some ''sga''" by (rule selected_materials_no_sga[OF s in_s])
  then have "\<not> label_contains ''pO2'' r' \<and> \<not> label_contains ''pCO2'' r' \<and> \<not> label_contains ''pH'' r'"
    using r' by (auto simp: drop_non_arterial_def)
  then show ?thesis using label_contains_cong[OF eq(1)] by simp
qed

text \<open>
  Claim C3 (implicit). Under the default configuration, \<open>material_to_include =
  ['any_blood']\<close>: every row that passes the material filter has the material
  \<open>any_blood\<close> (the merge has rewritten \<open>sga\<close> with every other blood material), so the
  table \<^verbatim>\<open>preprocess_labs\<close> returns has no row whose dosage label contains \<open>pO2\<close>,
  \<open>pCO2\<close> or \<open>pH\<close>, and the call never raises the arterial-and-other-materials error.
\<close>

theorem default_configuration_drops_blood_gas:
  assumes "material_to_include cfg = [''any_blood'']"
  shows "(\<forall>s. labs_of_selected_materials cfg lab_df = Inr s \<longrightarrow>
            (\<forall>r \<in> set s. material_label r = Some ''any_blood''))
       \<and> (\<forall>out. preprocess_labs cfg lab_df = Inr out \<longrightarrow>
            (\<forall>r \<in> set (table out).
               \<not> label_contains ''pO2'' r \<and> \<not> label_contains ''pCO2'' r \<and> \<not> label_contains ''pH'' r))
       \<and> (\<forall>pat ms. preprocess_labs cfg lab_df \<noteq> Inl (ArterialAndOtherMaterials pat ms))"
proof -
  have a: "\<forall>s. labs_of_selected_materials cfg lab_df = Inr s \<longrightarrow>
            (\<forall>r \<in> set s. material_label r = Some ''any_blood'')"
    using assms selected_materials_default by blast
  have b: "\<forall>out. preprocess_labs cfg lab_df = Inr out \<longrightarrow>
            (\<forall>r \<in> set (table out).
               \<not> label_contains ''pO2'' r \<and> \<not> label_contains ''pCO2'' r \<and> \<not> label_contains ''pH'' r)"
    using table_no_blood_gas by blast
  have c: "\<forall>pat ms. preprocess_labs cfg lab_df \<noteq> Inl (ArterialAndOtherMaterials pat ms)"
    using preprocess_labs_error[of cfg lab_df] by (auto simp: is_material_error_def)
  show ?thesis using a b c by blast
qed


lemma check_units_loop_ok:
  "check_units_loop ls df = Inr u \<Longrightarrow> l \<in> set ls \<Longrightarrow> length (units_for_dosage_label l df) \<le> 1"
  by (induction ls) (auto split: if_splits)

lemma check_units_same_unit:
  assumes ok: "check_units df = Inr u" and r1: "r1 \<in> set df" and r2: "r2 \<in> set df"
    and l: "dosage_label r1 = Some l" "dosage_label r2 = Some l"
  shows "unit_of_measure r1 = unit_of_measure r2"
proof -
  have "Some l \<in> set (unique (map dosage_label df))" using r1 l(1) by force
  then have "length (units_for_dosage_label (Some l) df) \<le> 1"
    using ok check_units_loop_ok unfolding check_units_def by blast
  moreover have "unit_of_measure r1 \<in> set (map unit_of_measure (filter (\<lambda>r. Some l \<noteq> None \<and> dosage_label r = Some l) df))"
    using r1 l(1) by auto
  moreover have "unit_of_measure r2 \<in> set (map unit_of_measure (filter (\<lambda>r. Some l \<noteq> None \<and> dosage_label r = Some l) df))"
    using r2 l(2) by auto
  ultimately show ?thesis
    unfolding units_for_dosage_label_def by (rule length_unique_le_1)
qed

lemma check_units_loop_fails:
  "\<exists>l \<in> set ls. length (units_for_dosage_label l df) > 1 \<Longrightarrow>
   \<exists>l \<in> set ls. check_units_loop ls df = Inl (DifferentUnits l (units_for_dosage_label l df))
      \<and> length (units_for_dosage_label l df) > 1"
  by (induction ls) auto

lemma set_units_for_dosage_label:
  "l \<noteq> None \<Longrightarrow> set (units_for_dosage_label l df) = unit_of_measure ` {r \<in> set df. dosage_label r = l}"
  by (auto simp: units_for_dosage_label_def)

lemma two_units_length:
  assumes "r1 \<in> set df" "r2 \<in> set df" "dosage_label r1 = l" "dosage_label r2 = l" "l \<noteq> None"
    "unit_of_measure r1 \<noteq> unit_of_measure r2"
  shows "length (units_for_dosage_label l df) > 1"
proof (rule ccontr)
  assume "\<not> 1 < length (units_for_dosage_label l df)"
  then have le: "length (unique (map unit_of_measure (filter (\<lambda>r. l \<noteq> None \<and> dosage_label r = l) df))) \<le> 1"
    by (simp add: units_for_dosage_label_def)
  have "unit_of_measure r1 = unit_of_measure r2"
    by (rule length_unique_le_1[OF le]) (use assms in auto)
  then show False using assms(6) by simp
qed

lemma table_one_unit:
  assumes run: "preprocess_labs cfg lab_df = Inr out" and l: "Some l \<in> dosage_label ` set (table out)"
  shows "card (unit_of_measure ` {r \<in> set (table out). dosage_label r = Some l}) = 1"
proof -
  obtain t' where t': "check_units t' = Inr ()" "values_and_statistics cfg t' = Inr out"
    using run by (rule preprocess_labs_Inr)
  obtain r0 where r0: "r0 \<in> set (table out)" "dosage_label r0 = Some l" using l by force
  have same: "unit_of_measure r = unit_of_measure r0"
    if rin: "r \<in> set (table out)" and rl: "dosage_label r = Some l" for r
  proof -
    obtain a where a: "a \<in> set t'" "row_keys r = row_keys a"
      using keys_values_and_statistics[OF t'(2)] rin by auto
    obtain b where b: "b \<in> set t'" "row_keys r0 = row_keys b"
      using keys_values_and_statistics[OF t'(2)] r0(1) by auto
    have la: "dosage_label a = Some l" using a(2) rl by (simp add: row_keys_def)
    have lb: "dosage_label b = Some l" using b(2) r0(2) by (simp add: row_keys_def)
    have "unit_of_measure a = unit_of_measure b"
      by (rule check_units_same_unit[OF t'(1) a(1) b(1) la lb])
    then show ?thesis using a(2) b(2) by (simp add: row_keys_def)
  qed
  have "unit_of_measure ` {r \<in> set (table out). dosage_label r = Some l} = {unit_of_measure r0}"
  proof
    show "unit_of_measure ` {r \<in> set (table out). dosage_label r = Some l} \<subseteq> {unit_of_measure r0}"
      using same by auto
    show "{unit_of_measure r0} \<subseteq> unit_of_measure ` {r \<in> set (table out). dosage_label r = Some l}"
      using r0 by auto
  qed
  then show ?thesis by simp
qed

lemma two_units_raise:
  assumes t: "labs_of_retained_units cfg lab_df = Inr t"
    and r: "r1 \<in> set t" "r2 \<in> set t" "dosage_label r1 = dosage_label r2"
      "dosage_label r1 \<noteq> None" "unit_of_measure r1 \<noteq> unit_of_measure r2"
  shows "\<exists>l us. preprocess_labs cfg lab_df = Inl (DifferentUnits l us)
          \<and> l \<in> dosage_label ` set t \<and> 1 < length us
          \<and> set us = unit_of_measure ` {r \<in> set t. dosage_label r = l}"
proof -
  have "length (units_for_dosage_label (dosage_label r1) t) > 1"
    by (rule two_units_length[OF r(1,2) refl r(3)[symmetric] r(4,5)])
  moreover have "dosage_label r1 \<in> set (unique (map dosage_label t))" using r(1) by simp
  ultimately have "\<exists>l \<in> set (unique (map dosage_label t)).
      check_units_loop (unique (map dosage_label t)) t = Inl (DifferentUnits l (units_for_dosage_label l t))
      \<and> length (units_for_dosage_label l t) > 1"
    by (intro check_units_loop_fails) (rule bexI)
  then obtain l where l: "l \<in> set (unique (map dosage_label t))"
      "check_units t = Inl (DifferentUnits l (units_for_dosage_label l t))"
      "length (units_for_dosage_label l t) > 1"
    unfolding check_units_def by blast
  have "l \<noteq> None" using l(3) by (cases l) (simp_all add: units_for_dosage_label_def)
  then have s: "set (units_for_dosage_label l t) = unit_of_measure ` {r \<in> set t. dosage_label r = l}"
    by (rule set_units_for_dosage_label)
  have p: "preprocess_labs cfg lab_df = Inl (DifferentUnits l (units_for_dosage_label l t))"
    using t l(2) by (simp add: preprocess_labs_def)
  have m: "l \<in> dosage_label ` set t" using l(1) by simp
  show ?thesis
    by (rule exI[of _ l], rule exI[of _ "units_for_dosage_label l t"]) (use p m l(3) s in simp)
qed

text \<open>
  Claim C1 (unit invariant). In the table \<^verbatim>\<open>preprocess_labs\<close> returns, the rows of every
  dosage label present carry exactly one unit of measure. And when, in the table left
  by the unit merging and the per-label unit filter, two rows of one label carry
  different units, the call raises the different-units error, which names a label of
  that table and the list of the distinct units of its rows, more than one.
\<close>

theorem one_unit_per_dosage_label:
  "(preprocess_labs cfg lab_df = Inr out \<longrightarrow>
      (\<forall>l. Some l \<in> dosage_label ` set (table out) \<longrightarrow>
         card (unit_of_measure ` {r \<in> set (table out). dosage_label r = Some l}) = 1))
   \<and> (labs_of_retained_units cfg lab_df = Inr t \<longrightarrow>
      (\<exists>r1 \<in> set t. \<exists>r2 \<in> set t. dosage_label r1 = dosage_label r2 \<and> dosage_label r1 \<noteq> None
          \<and> unit_of_measure r1 \<noteq> unit_of_measure r2) \<longrightarrow>
      (\<exists>l us. preprocess_labs cfg lab_df = Inl (DifferentUnits l us)
          \<and> l \<in> dosage_label ` set t \<and> 1 < length us
          \<and> set us = unit_of_measure ` {r \<in> set t. dosage_label r = l}))"
proof (intro conjI impI allI)
  fix l
  assume "preprocess_labs cfg lab_df = Inr out" "Some l \<in> dosage_label ` set (table out)"
  then show "card (unit_of_measure ` {r \<in> set (table out). dosage_label r = Some l}) = 1"
    by (rule table_one_unit)
next
  assume t: "labs_of_retained_units cfg lab_df = Inr t"
    and "\<exists>r1 \<in> set t. \<exists>r2 \<in> set t. dosage_label r1 = dosage_label r2 \<and> dosage_label r1 \<noteq> None
          \<and> unit_of_measure r1 \<noteq> unit_of_measure r2"
  then obtain r1 r2 where "r1 \<in> set t" "r2 \<in> set t" "dosage_label r1 = dosage_label r2"
    "dosage_label r1 \<noteq> None" "unit_of_measure r1 \<noteq> unit_of_measure r2"
    by blast
  then show "\<exists>l us. preprocess_labs cfg lab_df = Inl (DifferentUnits l us)
          \<and> l \<in> dosage_label ` set t \<and> 1 < length us
          \<and> set us = unit_of_measure ` {r \<in> set t. dosage_label r = l}"
    by (rule two_units_raise[OF t])
qed

subsection \<open>The material and unit properties on the example tables\<close>

theorem default_configuration_drops_blood_gas_witness:
  "material_to_include blood_gas_config = [''any_blood'']
   \<and> (\<exists>out. preprocess_labs blood_gas_config blood_gas_lab_df = Inr out
         \<and> map dosage_label (table out) = [Some ''albumine'']
         \<and> list_all (\<lambda>r. \<not> label_contains ''pO2'' r \<and> \<not> label_contains ''pCO2'' r
                           \<and> \<not> label_contains ''pH'' r) (table out))"
proof -
  have h: "material_to_include blood_gas_config = [''any_blood'']"
    by (simp add: blood_gas_config_def albumine_config_def)
  have "case preprocess_labs blood_gas_config blood_gas_lab_df of
          Inl e \<Rightarrow> False | Inr out \<Rightarrow> map dosage_label (table out) = [Some ''albumine'']"
    by code_simp
  then obtain out where out: "preprocess_labs blood_gas_config blood_gas_lab_df = Inr out"
    "map dosage_label (table out) = [Some ''albumine'']"
    by (auto split: sum.splits)
  have "\<forall>r \<in> set (table out). \<not> label_contains ''pO2'' r \<and> \<not> label_contains ''pCO2'' r
          \<and> \<not> label_contains ''pH'' r"
    using default_configuration_drops_blood_gas[OF h, of blood_gas_lab_df] out(1) by blast
  then show ?thesis using h out by (auto simp: list_all_iff)
qed


theorem one_unit_per_dosage_label_witness:
  "(\<exists>out. preprocess_labs albumine_config median_counts_lab_df = Inr out
       \<and> Some ''albumine'' \<in> dosage_label ` set (table out)
       \<and> card (unit_of_measure ` {r \<in> set (table out). dosage_label r = Some ''albumine''}) = 1)
   \<and> (\<exists>t. labs_of_retained_units albumine_config two_units_lab_df = Inr t
       \<and> map dosage_label t = [Some ''albumine'', Some ''albumine'']
       \<and> map unit_of_measure t = [Some ''g/l'', Some ''mg/l''])
   \<and> (\<exists>l us. preprocess_labs albumine_config two_units_lab_df = Inl (DifferentUnits l us)
       \<and> 1 < length us)"
proof -
  have "case preprocess_labs albumine_config median_counts_lab_df of
          Inl e \<Rightarrow> False
        | Inr out \<Rightarrow> hd (map dosage_label (table out)) = Some ''albumine'' \<and> table out \<noteq> []"
    by code_simp
  then obtain out where out: "preprocess_labs albumine_config median_counts_lab_df = Inr out"
    "hd (map dosage_label (table out)) = Some ''albumine''" "table out \<noteq> []"
    by (auto split: sum.splits)
  have mem: "Some ''albumine'' \<in> dosage_label ` set (table out)"
    using out(2,3) by (cases "table out") auto
  have one: "card (unit_of_measure ` {r \<in> set (table out). dosage_label r = Some ''albumine''}) = 1"
    using one_unit_per_dosage_label[of albumine_config median_counts_lab_df out] out(1) mem by blast
  have "case labs_of_retained_units albumine_config two_units_lab_df of
          Inl e \<Rightarrow> False
        | Inr t \<Rightarrow> map dosage_label t = [Some ''albumine'', Some ''albumine'']
                 \<and> map unit_of_measure t = [Some ''g/l'', Some ''mg/l'']"
    by code_simp
  then obtain t where t: "labs_of_retained_units albumine_config two_units_lab_df = Inr t"
    "map dosage_label t = [Some ''albumine'', Some ''albumine'']"
    "map unit_of_measure t = [Some ''g/l'', Some ''mg/l'']"
    by (auto split: sum.splits)
  obtain r1 r2 where r: "t = [r1, r2]" using t(2) by (auto simp: map_eq_Cons_conv)
  have two: "\<exists>r1 \<in> set t. \<exists>r2 \<in> set t. dosage_label r1 = dosage_label r2 \<and> dosage_label r1 \<noteq> None
          \<and> unit_of_measure r1 \<noteq> unit_of_measure r2"
    using t(2,3) unfolding r by auto
  have "\<exists>l us. preprocess_labs albumine_config two_units_lab_df = Inl (DifferentUnits l us)
          \<and> l \<in> dosage_label ` set t \<and> 1 < length us
          \<and> set us = unit_of_measure ` {r \<in> set t. dosage_label r = l}"
    using one_unit_per_dosage_label[of albumine_config two_units_lab_df _ t] t(1) two by blast
  then have raise: "\<exists>l us. preprocess_labs albumine_config two_units_lab_df = Inl (DifferentUnits l us)
       \<and> 1 < length us" by blast
  have A: "\<exists>out. preprocess_labs albumine_config median_counts_lab_df = Inr out
       \<and> Some ''albumine'' \<in> dosage_label ` set (table out)
       \<and> card (unit_of_measure ` {r \<in> set (table out). dosage_label r = Some ''albumine''}) = 1"
    using out(1) mem one by (intro exI[of _ out] conjI)
  have B: "\<exists>t. labs_of_retained_units albumine_config two_units_lab_df = Inr t
       \<and> map dosage_label t = [Some ''albumine'', Some ''albumine'']
       \<and> map unit_of_measure t = [Some ''g/l'', Some ''mg/l'']"
    using t by (intro exI[of _ t] conjI)
  show ?thesis by (rule conjI[OF A conjI[OF B raise]])
qed

text \<open>
  Claim C2 (the arterial and venous scenario), evaluated: with a \<open>pH\<close> row of material
  \<open>sga\<close> and one of material \<open>sgv\<close>, selected variable \<open>pH\<close> and the default material,
  \<^verbatim>\<open>preprocess_labs\<close> returns, with an empty table, and raises nothing. Handed the two
  rows with their materials untouched, the loop of lines 106 to 119 drops the venous
  row and keeps the arterial one, again without raising.
\<close>

theorem arterial_and_venous_pH_returns:
  "preprocess_labs pH_config arterial_and_venous_lab_df =
     Inr \<lparr>table = [], n_observations_out_ouf_range = 0, median_observations = [],
          negative_values_warning = False\<rparr>
   \<and> fix_blood_gas_materials [arterial_pH_row, venous_pH_row] = Inr [arterial_pH_row]"
proof -
  have a: "preprocess_labs pH_config arterial_and_venous_lab_df =
     Inr \<lparr>table = [], n_observations_out_ouf_range = 0, median_observations = [],
          negative_values_warning = False\<rparr>"
    by code_simp
  have b: "fix_blood_gas_materials [arterial_pH_row, venous_pH_row] = Inr [arterial_pH_row]"
    by (simp add: fix_blood_gas_materials_def blood_gas_labels_def blood_gas_round_def
        drop_non_arterial_def label_contains_def arterial_pH_row_def venous_pH_row_def Let_def)
  show ?thesis using a b by simp
qed

subsection \<open>Values that are not numbers\<close>







lemma val_with_val [simp]: "val (with_val v r) = v"
  by (simp add: with_val_def)




subsection \<open>Plausible ranges\<close>












subsection \<open>Median observation counts\<close>
















subsection \<open>The reshaping of a wide table\<close>

lemma split_join:
  assumes "split_rest c \<noteq> []"
  shows "c = split_head c @ ''_'' @ split_rest c"
proof -
  let ?P = "\<lambda>x. x \<noteq> CHR ''_''"
  have ne: "dropWhile ?P c \<noteq> []"
  proof
    assume "dropWhile ?P c = []"
    then have "split_rest c = []" by (simp only: split_rest_def drop_Nil)
    then show False using assms by simp
  qed
  then have "\<not> ?P (hd (dropWhile ?P c))" by (rule hd_dropWhile)
  then have "dropWhile ?P c = CHR ''_'' # tl (dropWhile ?P c)"
    using ne by (cases "dropWhile ?P c") auto
  then have "dropWhile ?P c = ''_'' @ split_rest c"
    by (simp add: split_rest_def drop_Suc)
  moreover have "c = takeWhile ?P c @ dropWhile ?P c" by simp
  ultimately show ?thesis by (simp add: split_head_def)
qed

lemma map_of_zip_map:
  "map_of (zip (map f xs) (map g xs)) k =
     (case find (\<lambda>x. f x = k) xs of None \<Rightarrow> None | Some x \<Rightarrow> Some (g x))"
  by (induction xs) auto

lemma filter_all: "length (filter P xs) = length xs \<Longrightarrow> filter P xs = xs"
  by (metis filter_True length_filter_less nat_neq_iff)

lemma tag_of_slice:
  "individual_lab_df df n = Inr g \<Longrightarrow> r \<in> set (rows g) \<Longrightarrow> cell_of r ''lab_name'' = Some n"
  by (auto simp: individual_lab_df_def Let_def cell_of_def split: option.splits if_splits)

lemma for_each_Inr:
  "for_each f ns = Inr ds \<Longrightarrow> list_all2 (\<lambda>n d. f n = Inr d) ns ds"
  by (induction ns arbitrary: ds) (auto split: sum.splits)

lemma tagged_none:
  "list_all2 (\<lambda>n d. individual_lab_df df n = Inr d) ns ds \<Longrightarrow> name \<notin> set ns \<Longrightarrow>
   filter (\<lambda>r. cell_of r ''lab_name'' = Some name) (concat (map rows ds)) = []"
proof (induction rule: list_all2_induct)
  case Nil
  then show ?case by simp
next
  case (Cons n ns d ds)
  have "filter (\<lambda>r. cell_of r ''lab_name'' = Some name) (rows d) = []"
    using tag_of_slice[OF Cons.hyps(1)] Cons.prems by (auto simp: filter_empty_conv)
  then show ?case using Cons by simp
qed

lemma tagged_slice:
  "list_all2 (\<lambda>n d. individual_lab_df df n = Inr d) ns ds \<Longrightarrow> distinct ns \<Longrightarrow>
   name \<in> set ns \<Longrightarrow> individual_lab_df df name = Inr g \<Longrightarrow>
   filter (\<lambda>r. cell_of r ''lab_name'' = Some name) (concat (map rows ds)) = rows g"
proof (induction rule: list_all2_induct)
  case Nil
  then show ?case by simp
next
  case (Cons n ns d ds)
  show ?case
  proof (cases "n = name")
    case True
    then have d: "d = g" using Cons.hyps(1) Cons.prems(3) by simp
    have "filter (\<lambda>r. cell_of r ''lab_name'' = Some name) (rows g) = rows g"
      using tag_of_slice[OF Cons.prems(3)] by (auto intro: filter_True)
    moreover have "filter (\<lambda>r. cell_of r ''lab_name'' = Some name) (concat (map rows ds)) = []"
      using tagged_none[OF Cons.hyps(2)] Cons.prems(1) True by simp
    ultimately show ?thesis using d by simp
  next
    case False
    have "filter (\<lambda>r. cell_of r ''lab_name'' = Some name) (rows d) = []"
      using tag_of_slice[OF Cons.hyps(1)] False by (auto simp: filter_empty_conv)
    then show ?thesis using Cons False by simp
  qed
qed

lemma reorganise_Inr:
  assumes "reorganise it df = Inr long"
  obtains ds where "for_each (individual_lab_df df) (it (lab_names df)) = Inr ds"
    "rows long = concat (map rows ds)"
  using assms by (auto simp: reorganise_def concat_frames_def split: sum.splits if_splits)

lemma for_each_member:
  "for_each f ns = Inr ds \<Longrightarrow> n \<in> set ns \<Longrightarrow> \<exists>d. f n = Inr d"
  by (induction ns arbitrary: ds) (auto split: sum.splits)

lemma find_unique:
  assumes "a \<in> set xs" "P a" "\<And>x. x \<in> set xs \<Longrightarrow> P x \<Longrightarrow> x = a"
  shows "find P xs = Some a"
proof -
  have "find P xs \<noteq> None" using assms(1,2) by (auto simp: find_None_iff)
  then obtain x where x: "find P xs = Some x" by auto
  then have "x \<in> set xs" "P x" by (auto simp: find_Some_iff)
  then have "x = a" by (rule assms(3))
  then show ?thesis using x by simp
qed

lemma glucose_field:
  assumes "split_head c = ''glucose''" "split_rest c = field" "field \<noteq> []"
  shows "c = ''glucose_'' @ field"
proof -
  have "split_rest c \<noteq> []" using assms(2,3) by simp
  then have "c = split_head c @ ''_'' @ split_rest c" by (rule split_join)
  then have "c = ''glucose'' @ ''_'' @ field" by (simp only: assms(1,2))
  then show ?thesis by simp
qed

lemma glucose_slice_rows:
  assumes "individual_lab_df df ''glucose'' = Inr g"
  shows "rows g =
     map (\<lambda>r. (''lab_name'', Some ''glucose'') #
               zip (identification_columns @
                    map split_rest (filter (\<lambda>c. split_head c = ''glucose'') (columns df)))
                   (map (cell_of r)
                     (identification_columns @ filter (\<lambda>c. split_head c = ''glucose'') (columns df))))
       (filter (\<lambda>r. cell_of r ''glucose_value'' \<noteq> None) (rows df))"
    and "''glucose_value'' \<in> set (filter (\<lambda>c. split_head c = ''glucose'') (columns df))"
proof -
  let ?own = "filter (\<lambda>c. split_head c = ''glucose'') (columns df)"
  have sw: "filter (\<lambda>c. startswith c ''glucose'') (identification_columns @ ?own) =
              filter (\<lambda>c. startswith c ''glucose'') ?own"
    by (simp add: identification_columns_def)
  have ok: "''glucose_value'' \<in> set (identification_columns @ ?own)"
    "length (identification_columns @ map split_rest (filter (\<lambda>c. startswith c ''glucose'') ?own)) =
       length (identification_columns @ ?own)"
    using assms unfolding individual_lab_df_def Let_def sw
    by (auto split: option.splits if_splits)
  have "length (filter (\<lambda>c. startswith c ''glucose'') ?own) = length ?own"
    using ok(2) by simp
  then have all: "filter (\<lambda>c. startswith c ''glucose'') ?own = ?own"
    by (rule filter_all)
  show "''glucose_value'' \<in> set ?own"
    using ok(1) by (simp add: identification_columns_def)
  show "rows g =
     map (\<lambda>r. (''lab_name'', Some ''glucose'') #
               zip (identification_columns @ map split_rest ?own)
                   (map (cell_of r) (identification_columns @ ?own)))
       (filter (\<lambda>r. cell_of r ''glucose_value'' \<noteq> None) (rows df))"
    using assms unfolding individual_lab_df_def Let_def sw all
    by (auto split: option.splits if_splits)
qed

lemma glucose_slice_field:
  assumes "c \<in> set (filter (\<lambda>c. split_head c = ''glucose'') (columns df))"
    and "split_rest c = field" and "field \<noteq> []"
    and "field \<noteq> ''lab_name''" "field \<noteq> ''case_admission_id''" "field \<noteq> ''sample_date''"
  shows "cell_of ((''lab_name'', Some ''glucose'') #
               zip (identification_columns @
                    map split_rest (filter (\<lambda>c. split_head c = ''glucose'') (columns df)))
                   (map (cell_of r)
                     (identification_columns @ filter (\<lambda>c. split_head c = ''glucose'') (columns df))))
           field = cell_of r c"
proof -
  let ?own = "filter (\<lambda>c. split_head c = ''glucose'') (columns df)"
  have "find (\<lambda>x. split_rest x = field) ?own = Some c"
  proof (rule find_unique)
    show "c \<in> set ?own" by (rule assms(1))
    show "split_rest c = field" by (rule assms(2))
    fix x assume x: "x \<in> set ?own" "split_rest x = field"
    have "x = ''glucose_'' @ field" using x assms(3) by (intro glucose_field) auto
    moreover have "c = ''glucose_'' @ field" using assms(1,2,3) by (intro glucose_field) auto
    ultimately show "x = c" by simp
  qed
  then have "map_of (zip (map split_rest ?own) (map (cell_of r) ?own)) field = Some (cell_of r c)"
    by (simp add: map_of_zip_map)
  then show ?thesis
    using assms(4,5,6) by (simp add: cell_of_def identification_columns_def)
qed

lemma glucose_slice_values:
  assumes "individual_lab_df df ''glucose'' = Inr g"
  shows "map (\<lambda>r. cell_of r ''value'') (rows g) =
           map (\<lambda>r. cell_of r ''glucose_value'')
             (filter (\<lambda>r. cell_of r ''glucose_value'' \<noteq> None) (rows df))"
proof -
  have m: "''glucose_value'' \<in> set (filter (\<lambda>c. split_head c = ''glucose'') (columns df))"
    by (rule glucose_slice_rows(2)[OF assms])
  have r: "split_rest ''glucose_value'' = ''value''" by (simp add: split_rest_def)
  show ?thesis
    unfolding glucose_slice_rows(1)[OF assms] map_map o_def
    by (rule map_cong[OF refl]) (rule glucose_slice_field[OF m r], simp_all)
qed

lemma glucose_slice_units:
  assumes "individual_lab_df df ''glucose'' = Inr g" and "''glucose_unit'' \<in> set (columns df)"
  shows "map (\<lambda>r. cell_of r ''unit'') (rows g) =
           map (\<lambda>r. cell_of r ''glucose_unit'')
             (filter (\<lambda>r. cell_of r ''glucose_value'' \<noteq> None) (rows df))"
proof -
  have m: "''glucose_unit'' \<in> set (filter (\<lambda>c. split_head c = ''glucose'') (columns df))"
    using assms(2) by (simp add: split_head_def)
  have r: "split_rest ''glucose_unit'' = ''unit''" by (simp add: split_rest_def)
  show ?thesis
    unfolding glucose_slice_rows(1)[OF assms(1)] map_map o_def
    by (rule map_cong[OF refl]) (rule glucose_slice_field[OF m r], simp_all)
qed

lemma glucose_rows_of_long:
  assumes it: "distinct (it (lab_names lab_df))" "set (it (lab_names lab_df)) = set (lab_names lab_df)"
    and col: "''glucose_value'' \<in> set (columns lab_df)"
    and run: "reorganise it lab_df = Inr long"
  obtains g where "individual_lab_df lab_df ''glucose'' = Inr g"
    "filter (\<lambda>r. cell_of r ''lab_name'' = Some ''glucose'') (rows long) = rows g"
proof -
  obtain ds where ds: "for_each (individual_lab_df lab_df) (it (lab_names lab_df)) = Inr ds"
    "rows long = concat (map rows ds)"
    using run by (rule reorganise_Inr)
  have "split_head ''glucose_value'' \<in> set (lab_names lab_df)"
    unfolding lab_names_def using col by (auto simp: identification_columns_def)
  then have mem: "''glucose'' \<in> set (it (lab_names lab_df))"
    using it(2) by (simp add: split_head_def)
  obtain g where g: "individual_lab_df lab_df ''glucose'' = Inr g"
    using for_each_member[OF ds(1) mem] by blast
  have "filter (\<lambda>r. cell_of r ''lab_name'' = Some ''glucose'') (concat (map rows ds)) = rows g"
    by (rule tagged_slice[OF for_each_Inr[OF ds(1)] it(1) mem g])
  then show ?thesis using that[OF g] ds(2) by simp
qed

lemma singleton_list:
  assumes "distinct xs" "set xs = {x}"
  shows "xs = [x]"
proof -
  have "length xs = 1" using distinct_card[OF assms(1)] assms(2) by simp
  then obtain y where "xs = [y]" by (cases xs) auto
  then show ?thesis using assms(2) by simp
qed

lemma glucose_table_reshaped:
  assumes it: "distinct (it (lab_names lab_df))" "set (it (lab_names lab_df)) = set (lab_names lab_df)"
    and ident: "set identification_columns \<subseteq> set (columns lab_df)"
    and nonid: "filter (\<lambda>c. c \<notin> set identification_columns) (columns lab_df) =
                  [''glucose_value'', ''glucose_unit'']"
  shows "reorganise it lab_df =
     Inr \<lparr>columns = [''case_admission_id'', ''sample_date'', ''value'', ''unit'', ''lab_name''],
          rows = map (\<lambda>r. [(''lab_name'', Some ''glucose''),
                            (''case_admission_id'', cell_of r ''case_admission_id''),
                            (''sample_date'', cell_of r ''sample_date''),
                            (''value'', cell_of r ''glucose_value''),
                            (''unit'', cell_of r ''glucose_unit'')])
                   (filter (\<lambda>r. cell_of r ''glucose_value'' \<noteq> None) (rows lab_df))\<rparr>"
proof -
  have "filter (\<lambda>c. split_head c = ''glucose'') (columns lab_df) =
          filter (\<lambda>c. split_head c = ''glucose'')
            (filter (\<lambda>c. c \<notin> set identification_columns) (columns lab_df))"
    unfolding filter_filter
    by (rule filter_cong[OF refl]) (auto simp: identification_columns_def split_head_def)
  then have own: "filter (\<lambda>c. split_head c = ''glucose'') (columns lab_df) =
      [''glucose_value'', ''glucose_unit'']"
    unfolding nonid by (simp add: split_head_def)
  have names: "lab_names lab_df = [''glucose'', ''glucose'']"
    unfolding lab_names_def nonid by (simp add: split_head_def)
  have itg: "it (lab_names lab_df) = [''glucose'']"
  proof (rule singleton_list[OF it(1)])
    show "set (it (lab_names lab_df)) = {''glucose''}"
      unfolding it(2) by (simp add: names)
  qed
  have "set (filter (\<lambda>c. c \<notin> set identification_columns) (columns lab_df)) \<subseteq> set (columns lab_df)"
    by (rule filter_is_subset)
  then have gcols: "''glucose_value'' \<in> set (columns lab_df)" "''glucose_unit'' \<in> set (columns lab_df)"
    unfolding nonid by simp_all
  have fnd: "find (\<lambda>c. c \<notin> set (columns lab_df))
               (identification_columns @ [''glucose_value'', ''glucose_unit'']) = None"
    using ident gcols by (auto simp: find_None_iff)
  have slice: "individual_lab_df lab_df ''glucose'' =
     Inr \<lparr>columns = [''case_admission_id'', ''sample_date'', ''value'', ''unit'', ''lab_name''],
          rows = map (\<lambda>r. [(''lab_name'', Some ''glucose''),
                            (''case_admission_id'', cell_of r ''case_admission_id''),
                            (''sample_date'', cell_of r ''sample_date''),
                            (''value'', cell_of r ''glucose_value''),
                            (''unit'', cell_of r ''glucose_unit'')])
                   (filter (\<lambda>r. cell_of r ''glucose_value'' \<noteq> None) (rows lab_df))\<rparr>"
    unfolding individual_lab_df_def Let_def own fnd
    by (simp add: identification_columns_def split_rest_def)
  show ?thesis
    unfolding reorganise_def itg
    by (simp add: slice concat_frames_def)
qed

lemma glucose_rows_counted:
  assumes it: "distinct (it (lab_names lab_df))" "set (it (lab_names lab_df)) = set (lab_names lab_df)"
    and col: "''glucose_value'' \<in> set (columns lab_df)" "''glucose_unit'' \<in> set (columns lab_df)"
    and run: "reorganise it lab_df = Inr long"
  shows "length (filter (\<lambda>r. cell_of r ''lab_name'' = Some ''glucose'') (rows long)) =
           length (filter (\<lambda>r. cell_of r ''glucose_value'' \<noteq> None) (rows lab_df))
       \<and> map (\<lambda>r. cell_of r ''value'') (filter (\<lambda>r. cell_of r ''lab_name'' = Some ''glucose'') (rows long)) =
           map (\<lambda>r. cell_of r ''glucose_value'')
             (filter (\<lambda>r. cell_of r ''glucose_value'' \<noteq> None) (rows lab_df))
       \<and> map (\<lambda>r. cell_of r ''unit'') (filter (\<lambda>r. cell_of r ''lab_name'' = Some ''glucose'') (rows long)) =
           map (\<lambda>r. cell_of r ''glucose_unit'')
             (filter (\<lambda>r. cell_of r ''glucose_value'' \<noteq> None) (rows lab_df))"
proof -
  obtain g where g: "individual_lab_df lab_df ''glucose'' = Inr g"
    "filter (\<lambda>r. cell_of r ''lab_name'' = Some ''glucose'') (rows long) = rows g"
    by (rule glucose_rows_of_long[where it = it and lab_df = lab_df, OF it col(1) run])
  have v: "map (\<lambda>r. cell_of r ''value'') (rows g) =
           map (\<lambda>r. cell_of r ''glucose_value'')
             (filter (\<lambda>r. cell_of r ''glucose_value'' \<noteq> None) (rows lab_df))"
    by (rule glucose_slice_values[OF g(1)])
  have u: "map (\<lambda>r. cell_of r ''unit'') (rows g) =
           map (\<lambda>r. cell_of r ''glucose_unit'')
             (filter (\<lambda>r. cell_of r ''glucose_value'' \<noteq> None) (rows lab_df))"
    by (rule glucose_slice_units[OF g(1) col(2)])
  have "length (rows g) = length (filter (\<lambda>r. cell_of r ''glucose_value'' \<noteq> None) (rows lab_df))"
    using arg_cong[OF v, of length] by simp
  then show ?thesis unfolding g(2) using v u by simp
qed

text \<open>
  Claim C9 (wide-to-long reshape). Let the iteration over \<^verbatim>\<open>lab_names\<close> visit every
  analyte name once. If the wide table has the columns \<open>glucose_value\<close> and
  \<open>glucose_unit\<close> and the reshaping returns, the rows of the long table tagged
  \<open>glucose\<close> are, in order, the rows of the wide table whose \<open>glucose_value\<close> is not
  missing, one for one, with that value under \<open>value\<close> and the unit under \<open>unit\<close>; a
  row whose value is missing yields none. If the two glucose columns are the only
  columns beside the identification columns, the reshaping returns, with exactly
  these rows.
\<close>

theorem wide_to_long_glucose:
  assumes "distinct (it (lab_names lab_df))"
    and "set (it (lab_names lab_df)) = set (lab_names lab_df)"
  shows "(''glucose_value'' \<in> set (columns lab_df) \<longrightarrow> ''glucose_unit'' \<in> set (columns lab_df) \<longrightarrow>
          reorganise it lab_df = Inr long \<longrightarrow>
            length (filter (\<lambda>r. cell_of r ''lab_name'' = Some ''glucose'') (rows long)) =
              length (filter (\<lambda>r. cell_of r ''glucose_value'' \<noteq> None) (rows lab_df))
          \<and> map (\<lambda>r. cell_of r ''value'')
                (filter (\<lambda>r. cell_of r ''lab_name'' = Some ''glucose'') (rows long)) =
              map (\<lambda>r. cell_of r ''glucose_value'')
                (filter (\<lambda>r. cell_of r ''glucose_value'' \<noteq> None) (rows lab_df))
          \<and> map (\<lambda>r. cell_of r ''unit'')
                (filter (\<lambda>r. cell_of r ''lab_name'' = Some ''glucose'') (rows long)) =
              map (\<lambda>r. cell_of r ''glucose_unit'')
                (filter (\<lambda>r. cell_of r ''glucose_value'' \<noteq> None) (rows lab_df)))
       \<and> (set identification_columns \<subseteq> set (columns lab_df) \<longrightarrow>
          filter (\<lambda>c. c \<notin> set identification_columns) (columns lab_df) =
            [''glucose_value'', ''glucose_unit''] \<longrightarrow>
          reorganise it lab_df =
            Inr \<lparr>columns = [''case_admission_id'', ''sample_date'', ''value'', ''unit'', ''lab_name''],
                 rows = map (\<lambda>r. [(''lab_name'', Some ''glucose''),
                                   (''case_admission_id'', cell_of r ''case_admission_id''),
                                   (''sample_date'', cell_of r ''sample_date''),
                                   (''value'', cell_of r ''glucose_value''),
                                   (''unit'', cell_of r ''glucose_unit'')])
                          (filter (\<lambda>r. cell_of r ''glucose_value'' \<noteq> None) (rows lab_df))\<rparr>)"
proof -
  have a: "(''glucose_value'' \<in> set (columns lab_df) \<longrightarrow> ''glucose_unit'' \<in> set (columns lab_df) \<longrightarrow>
          reorganise it lab_df = Inr long \<longrightarrow>
            length (filter (\<lambda>r. cell_of r ''lab_name'' = Some ''glucose'') (rows long)) =
              length (filter (\<lambda>r. cell_of r ''glucose_value'' \<noteq> None) (rows lab_df))
          \<and> map (\<lambda>r. cell_of r ''value'')
                (filter (\<lambda>r. cell_of r ''lab_name'' = Some ''glucose'') (rows long)) =
              map (\<lambda>r. cell_of r ''glucose_value'')
                (filter (\<lambda>r. cell_of r ''glucose_value'' \<noteq> None) (rows lab_df))
          \<and> map (\<lambda>r. cell_of r ''unit'')
                (filter (\<lambda>r. cell_of r ''lab_name'' = Some ''glucose'') (rows long)) =
              map (\<lambda>r. cell_of r ''glucose_unit'')
                (filter (\<lambda>r. cell_of r ''glucose_value'' \<noteq> None) (rows lab_df)))"
    by (intro impI) (rule glucose_rows_counted[where it = it and lab_df = lab_df, OF assms])
  have b: "(set identification_columns \<subseteq> set (columns lab_df) \<longrightarrow>
          filter (\<lambda>c. c \<notin> set identification_columns) (columns lab_df) =
            [''glucose_value'', ''glucose_unit''] \<longrightarrow>
          reorganise it lab_df =
            Inr \<lparr>columns = [''case_admission_id'', ''sample_date'', ''value'', ''unit'', ''lab_name''],
                 rows = map (\<lambda>r. [(''lab_name'', Some ''glucose''),
                                   (''case_admission_id'', cell_of r ''case_admission_id''),
                                   (''sample_date'', cell_of r ''sample_date''),
                                   (''value'', cell_of r ''glucose_value''),
                                   (''unit'', cell_of r ''glucose_unit'')])
                          (filter (\<lambda>r. cell_of r ''glucose_value'' \<noteq> None) (rows lab_df))\<rparr>)"
    by (intro impI) (rule glucose_table_reshaped[where it = it and lab_df = lab_df, OF assms])
  show ?thesis by (rule conjI[OF a b])
qed

theorem wide_to_long_glucose_witness:
  "map (\<lambda>r. cell_of r ''glucose_value'') (rows wide_lab_df) = [Some ''5.5'', None]
   \<and> reorganised_lab_df remdups wide_lab_df =
       Inr \<lparr>columns = [''case_admission_id'', ''sample_date'', ''value'', ''unit'', ''lab_name''],
            rows = [[(''lab_name'', Some ''glucose''), (''case_admission_id'', Some ''1_1234''),
                     (''sample_date'', Some ''01.01.2020 12:00''), (''value'', Some ''5.5''),
                     (''unit'', Some ''mmol/l'')]]\<rparr>"
proof -
  let ?F = "drop_columns columns_to_drop
              (assign_column ''case_admission_id'' [Some ''1_1234'', Some ''1_1234''] wide_lab_df)"
  have in_rows: "map (\<lambda>r. cell_of r ''glucose_value'') (rows wide_lab_df) = [Some ''5.5'', None]"
    by code_simp
  have same: "reorganised_lab_df remdups wide_lab_df = reorganise remdups ?F"
    by code_simp
  have cols: "columns ?F = [''sample_date'', ''glucose_value'', ''glucose_unit'', ''case_admission_id'']"
    by code_simp
  have h1: "distinct (remdups (lab_names ?F))" by simp
  have h2: "set (remdups (lab_names ?F)) = set (lab_names ?F)" by simp
  have h3: "set identification_columns \<subseteq> set (columns ?F)"
    unfolding cols by (simp add: identification_columns_def)
  have h4: "filter (\<lambda>c. c \<notin> set identification_columns) (columns ?F) =
              [''glucose_value'', ''glucose_unit'']"
    unfolding cols by (simp add: identification_columns_def)
  have long: "reorganise remdups ?F =
       Inr \<lparr>columns = [''case_admission_id'', ''sample_date'', ''value'', ''unit'', ''lab_name''],
            rows = map (\<lambda>r. [(''lab_name'', Some ''glucose''),
                              (''case_admission_id'', cell_of r ''case_admission_id''),
                              (''sample_date'', cell_of r ''sample_date''),
                              (''value'', cell_of r ''glucose_value''),
                              (''unit'', cell_of r ''glucose_unit'')])
                     (filter (\<lambda>r. cell_of r ''glucose_value'' \<noteq> None) (rows ?F))\<rparr>"
    using wide_to_long_glucose[where it = remdups and lab_df = ?F, OF h1 h2, THEN conjunct2] h3 h4
    by simp
  have rows: "map (\<lambda>r. [(''lab_name'', Some ''glucose''),
                              (''case_admission_id'', cell_of r ''case_admission_id''),
                              (''sample_date'', cell_of r ''sample_date''),
                              (''value'', cell_of r ''glucose_value''),
                              (''unit'', cell_of r ''glucose_unit'')])
                     (filter (\<lambda>r. cell_of r ''glucose_value'' \<noteq> None) (rows ?F)) =
              [[(''lab_name'', Some ''glucose''), (''case_admission_id'', Some ''1_1234''),
                (''sample_date'', Some ''01.01.2020 12:00''), (''value'', Some ''5.5''),
                (''unit'', Some ''mmol/l'')]]"
    by code_simp
  show ?thesis
    using in_rows same long rows by simp
qed

end
